theory Spec2Isabelle
  imports Complex_Main "HOL-Library.Product_Lexorder" "HOL-Library.Multiset"
begin

section \<open>Domain model (package models)\<close>

text \<open>
  Go's \<^verbatim>\<open>int\<close> is modelled by \<^typ>\<open>int\<close>: the embedding is exact as long as no
  intermediate value leaves the machine range, which is the regime the program is written
  for (no function of the repository checks for overflow). Go's integer division truncates
  towards zero; it is written \<open>go_div\<close>. Time stamps are clock readings in seconds, passed
  to every operation that calls \<^verbatim>\<open>time.Now()\<close>. A Go pointer that may be \<^verbatim>\<open>nil\<close>
  is an \<open>option\<close>.
\<close>

type_synonym Time = int


subsection \<open>Items\<close>

type_synonym ItemType = string
type_synonym ItemRarity = string

definition ItemTypeBoots :: ItemType where "ItemTypeBoots = ''boots''"
definition ItemTypePants :: ItemType where "ItemTypePants = ''pants''"
definition ItemTypeArmor :: ItemType where "ItemTypeArmor = ''armor''"
definition ItemTypeHelmet :: ItemType where "ItemTypeHelmet = ''helmet''"
definition ItemTypeRing :: ItemType where "ItemTypeRing = ''ring''"
definition ItemTypeChain :: ItemType where "ItemTypeChain = ''chain''"

definition RarityCommon :: ItemRarity where "RarityCommon = ''common''"
definition RarityRare :: ItemRarity where "RarityRare = ''rare''"

record Item =
  itID :: int
  itName :: string
  itType :: ItemType
  itRarity :: ItemRarity
  StrengthBonus :: int
  AgilityBonus :: int
  VitalityBonus :: int
  IntelligenceBonus :: int
  SpecialEffect :: "string option"
  Value :: int
  IsSpecial :: bool
  itCreatedAt :: Time

subsection \<open>Characters\<close>

record Stats =
  stStrength :: int
  stAgility :: int
  stVitality :: int
  stIntelligence :: int

record Equipment =
  Boots :: "Item option"
  Pants :: "Item option"
  Armor :: "Item option"
  Helmet :: "Item option"
  Ring :: "Item option"
  Chain :: "Item option"

record Character =
  ID :: int
  Username :: string
  TwitchUserID :: "string option"
  Level :: int
  Experience :: int
  ChannelPointsSpent :: int
  Strength :: int
  Agility :: int
  Vitality :: int
  Intelligence :: int
  BootsID :: "int option"
  PantsID :: "int option"
  ArmorID :: "int option"
  HelmetID :: "int option"
  RingID :: "int option"
  ChainID :: "int option"
  CreatedAt :: Time
  UpdatedAt :: Time
  Equipped :: "Equipment option"
  TotalStats :: "Stats option"
  CombatPower :: int

text \<open>
  The field \<^verbatim>\<open>Equipment *Equipment\<close> of the Go struct is \<open>Equipped\<close> here (the name
  \<open>Equipment\<close> is the record type).
\<close>

definition CalculateBaseStats :: "Character \<Rightarrow> Stats" where
  "CalculateBaseStats c =
     \<lparr>stStrength = Strength c, stAgility = Agility c,
      stVitality = Vitality c, stIntelligence = Intelligence c\<rparr>"

text \<open>One \<^verbatim>\<open>if slot != nil { baseStats.X += slot.XBonus ... }\<close> block of the source.\<close>

definition addBonus :: "Item option \<Rightarrow> Stats \<Rightarrow> Stats" where
  "addBonus slot baseStats =
     (case slot of
        None \<Rightarrow> baseStats
      | Some it \<Rightarrow>
          baseStats\<lparr>stStrength := stStrength baseStats + StrengthBonus it,
                    stAgility := stAgility baseStats + AgilityBonus it,
                    stVitality := stVitality baseStats + VitalityBonus it,
                    stIntelligence := stIntelligence baseStats + IntelligenceBonus it\<rparr>)"

definition CalculateTotalStats :: "Character \<Rightarrow> Stats" where
  "CalculateTotalStats c =
     (let baseStats = CalculateBaseStats c in
      case Equipped c of
        None \<Rightarrow> baseStats
      | Some e \<Rightarrow>
          addBonus (Chain e) (addBonus (Ring e) (addBonus (Helmet e)
            (addBonus (Armor e) (addBonus (Pants e) (addBonus (Boots e) baseStats))))))"

definition CalculateCombatPower :: "Character \<Rightarrow> int" where
  "CalculateCombatPower c =
     (let totalStats = CalculateTotalStats c in
      (stStrength totalStats * 3) + (stAgility totalStats * 2) + (stVitality totalStats * 2)
        + (stIntelligence totalStats * 1) + (Level c * 5))"



definition GetNextLevelExperience :: "Character \<Rightarrow> int" where
  "GetNextLevelExperience c = Level c * 1000"

text \<open>The body of the \<^verbatim>\<open>for\<close> loop of \<^verbatim>\<open>AddExperience\<close>.\<close>

definition levelUpStep :: "Character \<Rightarrow> Character" where
  "levelUpStep c =
     c\<lparr>Experience := Experience c - GetNextLevelExperience c,
       Level := Level c + 1,
       Strength := Strength c + 1,
       Agility := Agility c + 1,
       Vitality := Vitality c + 1,
       Intelligence := Intelligence c + 1\<rparr>"

text \<open>
  The loop \<^verbatim>\<open>for c.Experience >= c.GetNextLevelExperience() { ... leveledUp = true }\<close>,
  with the loop variables \<open>c\<close> and \<open>leveledUp\<close>.
\<close>

function levelUpLoop :: "Character \<Rightarrow> bool \<Rightarrow> bool \<times> Character" where
  "levelUpLoop c leveledUp =
     (if Experience c \<ge> GetNextLevelExperience c
      then levelUpLoop (levelUpStep c) True
      else (leveledUp, c))"
  by pat_completeness auto
termination
proof (relation "measures [\<lambda>(c, b). nat (1 - Level c), \<lambda>(c, b). nat (Experience c)]")
  show "wf (measures [\<lambda>(c, b). nat (1 - Level c), \<lambda>(c, b). nat (Experience c)])"
    by simp
next
  fix c :: Character and leveledUp :: bool
  assume "GetNextLevelExperience c \<le> Experience c"
  then show "((levelUpStep c, True), (c, leveledUp))
      \<in> measures [\<lambda>(c, b). nat (1 - Level c), \<lambda>(c, b). nat (Experience c)]"
    by (cases "Level c \<le> 0") (auto simp: levelUpStep_def GetNextLevelExperience_def)
qed

text \<open>The parameter \<^verbatim>\<open>exp\<close> of the source is \<open>xp\<close> here.\<close>

definition AddExperience :: "Character \<Rightarrow> int \<Rightarrow> bool \<times> Character" where
  "AddExperience c xp = levelUpLoop (c\<lparr>Experience := Experience c + xp\<rparr>) False"

section \<open>Combat records and text formatting (package models)\<close>

record CombatLog =
  clID :: int
  AttackerID :: int
  DefenderID :: int
  WinnerID :: int
  clAttackerPower :: int
  clDefenderPower :: int
  CombatLogText :: string
  clCreatedAt :: Time
  clAttacker :: "Character option"
  clDefender :: "Character option"
  clWinner :: "Character option"

record CombatResult =
  Winner :: Character
  Loser :: Character
  AttackerPower :: int
  DefenderPower :: int
  CombatLogStr :: string
  ExperienceGained :: int
  RewardItems :: "Item list"

text \<open>
  The field \<^verbatim>\<open>CombatLog string\<close> of \<^verbatim>\<open>CombatResult\<close> is \<open>CombatLogStr\<close> here.
  \<open>itoa\<close> is the decimal rendering that \<^verbatim>\<open>fmt.Sprintf("%d", n)\<close> produces.
\<close>

fun digits :: "nat \<Rightarrow> string" where
  "digits n =
     (if n < 10 then [char_of (48 + n)]
      else digits (n div 10) @ [char_of (48 + n mod 10)])"

declare digits.simps [simp del]

definition itoa :: "int \<Rightarrow> string" where
  "itoa i = (if i < 0 then CHR ''-'' # digits (nat (- i)) else digits (nat i))"

record Event =
  evID :: int
  evType :: string
  Title :: string
  Description :: string
  Data :: string
  IsTriggered :: bool
  evCreatedAt :: Time
  ExpiresAt :: "Time option"

record MerchantEvent =
  meID :: int
  EventType :: string
  AvailableItems :: string
  StartTime :: Time
  EndTime :: "Time option"
  IsActive :: bool
  Items :: "Item list"

section \<open>In-memory storage (package storage)\<close>

text \<open>
  \<^verbatim>\<open>fmt.Errorf\<close> values are \<open>Error msg\<close>; a Go result \<^verbatim>\<open>(v, err)\<close> is a sum with
  \<open>Inl\<close> for the error. The lock of \<^verbatim>\<open>MemoryStorage\<close> is not modelled: every
  operation below is one critical section.

  Characters are read as copies and written back whole, so the map holds values.
  Merchant events are different: \<^verbatim>\<open>CreateMerchant\<close> writes through the pointer
  \<^verbatim>\<open>activeMerchant\<close> to an object that it allocated earlier, while the slice
  \<^verbatim>\<open>merchants\<close> holds value copies made at creation. The objects allocated by
  \<^verbatim>\<open>CreateMerchant\<close> therefore live in an explicit store \<open>merchantObjs\<close>, addressed
  by their index, and \<open>activeMerchant\<close> is an address.
\<close>

datatype error = Error string

record MemoryStorage =
  characters :: "int \<rightharpoonup> Character"
  items :: "int \<rightharpoonup> Item"
  combatLogs :: "CombatLog list"
  events :: "Event list"
  merchants :: "MerchantEvent list"
  merchantObjs :: "MerchantEvent list"
  activeMerchant :: "nat option"
  inventories :: "int \<rightharpoonup> Item list"
  nextCharacterID :: int
  nextCombatLogID :: int
  nextEventID :: int
  nextMerchantID :: int

definition initializeSampleData :: "Time \<Rightarrow> MemoryStorage \<Rightarrow> MemoryStorage" where
  \<open>initializeSampleData now ms =
     ms\<lparr>items := (items ms)
           (1 \<mapsto> \<lparr>itID = 1, itName = ''Iron Boots'', itType = ItemTypeBoots,
                  itRarity = RarityCommon, StrengthBonus = 2, AgilityBonus = 1,
                  VitalityBonus = 1, IntelligenceBonus = 0, SpecialEffect = None,
                  Value = 50, IsSpecial = False, itCreatedAt = now\<rparr>,
            2 \<mapsto> \<lparr>itID = 2, itName = ''Mystic Sword'', itType = ItemTypeRing,
                  itRarity = RarityRare, StrengthBonus = 5, AgilityBonus = 3,
                  VitalityBonus = 2, IntelligenceBonus = 4,
                  SpecialEffect = Some ''Increases magic damage'',
                  Value = 200, IsSpecial = True, itCreatedAt = now\<rparr>,
            3 \<mapsto> \<lparr>itID = 3, itName = ''Leather Pants'', itType = ItemTypePants,
                  itRarity = RarityCommon, StrengthBonus = 1, AgilityBonus = 3,
                  VitalityBonus = 2, IntelligenceBonus = 0, SpecialEffect = None,
                  Value = 40, IsSpecial = False, itCreatedAt = now\<rparr>),
        events := events ms @
           [\<lparr>evID = 1, evType = ''combat'', Title = ''Epic Battle'',
             Description = ''A fierce battle took place in the arena'',
             Data = ''{"winner": "TestUser", "experience": 100}'',
             IsTriggered = False, evCreatedAt = now, ExpiresAt = None\<rparr>]\<rparr>\<close>

definition NewMemoryStorage :: "Time \<Rightarrow> MemoryStorage" where
  "NewMemoryStorage now =
     initializeSampleData now
       \<lparr>characters = Map.empty, items = Map.empty, combatLogs = [], events = [],
        merchants = [], merchantObjs = [], activeMerchant = None,
        inventories = Map.empty, nextCharacterID = 1, nextCombatLogID = 1,
        nextEventID = 1, nextMerchantID = 1\<rparr>"

definition CreateCharacter ::
  "Time \<Rightarrow> string \<Rightarrow> string option \<Rightarrow> MemoryStorage \<Rightarrow> (error + Character) \<times> MemoryStorage" where
  "CreateCharacter now username twitchUserID ms =
     (if \<exists>c \<in> ran (characters ms). Username c = username
      then (Inl (Error (''character with username '' @ [CHR 0x27] @ username @ [CHR 0x27]
                          @ '' already exists'')), ms)
      else
        let char0 = \<lparr>ID = nextCharacterID ms, Username = username,
                      TwitchUserID = twitchUserID, Level = 1, Experience = 0,
                      ChannelPointsSpent = 0, Strength = 10, Agility = 10, Vitality = 10,
                      Intelligence = 10, BootsID = None, PantsID = None, ArmorID = None,
                      HelmetID = None, RingID = None, ChainID = None,
                      CreatedAt = now, UpdatedAt = now, Equipped = None,
                      TotalStats = None, CombatPower = 0\<rparr>;
            char = char0\<lparr>CombatPower := CalculateCombatPower char0\<rparr>
        in (Inr char,
            ms\<lparr>characters := (characters ms)(nextCharacterID ms \<mapsto> char),
               nextCharacterID := nextCharacterID ms + 1\<rparr>))"

definition GetCharacterByID :: "int \<Rightarrow> MemoryStorage \<Rightarrow> error + Character option" where
  "GetCharacterByID cid ms =
     (case characters ms cid of
        None \<Rightarrow> Inr None
      | Some char \<Rightarrow> Inr (Some (char\<lparr>CombatPower := CalculateCombatPower char\<rparr>)))"

definition UpdateCharacter ::
  "Time \<Rightarrow> Character \<Rightarrow> MemoryStorage \<Rightarrow> error option \<times> MemoryStorage" where
  "UpdateCharacter now char ms =
     (if characters ms (ID char) = None then (Some (Error ''character not found''), ms)
      else (None, ms\<lparr>characters := (characters ms)(ID char \<mapsto> char\<lparr>UpdatedAt := now\<rparr>)\<rparr>))"

text \<open>
  Go iterates over a map in an order that the language leaves unspecified; the order the
  run-time system picks is the argument \<open>order\<close>, a list of the keys.
\<close>

definition GetAllCharacters :: "int list \<Rightarrow> MemoryStorage \<Rightarrow> error + Character list" where
  "GetAllCharacters order ms =
     Inr (List.map_filter
            (\<lambda>cid. map_option (\<lambda>char. char\<lparr>CombatPower := CalculateCombatPower char\<rparr>)
                     (characters ms cid))
            order)"

text \<open>The parameter \<^verbatim>\<open>log\<close> of the source is \<open>entry\<close> here.\<close>

definition AddCombatLog :: "Time \<Rightarrow> CombatLog \<Rightarrow> MemoryStorage \<Rightarrow> error option \<times> MemoryStorage" where
  "AddCombatLog now entry ms =
     (None,
      ms\<lparr>combatLogs := combatLogs ms @ [entry\<lparr>clID := nextCombatLogID ms, clCreatedAt := now\<rparr>],
         nextCombatLogID := nextCombatLogID ms + 1\<rparr>)"

definition GetItemByID :: "int \<Rightarrow> MemoryStorage \<Rightarrow> error + Item option" where
  "GetItemByID cid ms = Inr (items ms cid)"


text \<open>
  \<^verbatim>\<open>CreateMerchant\<close>: \<open>now1\<close> and \<open>now2\<close> are its two clock readings. The new object
  gets the next free address; the slice \<^verbatim>\<open>merchants\<close> receives a copy of it.
\<close>

definition CreateMerchant ::
  "Time \<Rightarrow> Time \<Rightarrow> string \<Rightarrow> int \<Rightarrow> MemoryStorage \<Rightarrow> (error + MerchantEvent) \<times> MemoryStorage" where
  "CreateMerchant now1 now2 eventType durationMinutes ms =
     (let objs =
            (case activeMerchant ms of
               None \<Rightarrow> merchantObjs ms
             | Some a \<Rightarrow> (merchantObjs ms)[a := (merchantObjs ms ! a)\<lparr>IsActive := False\<rparr>]);
          endTime = now1 + durationMinutes * 60;
          merchant = \<lparr>meID = nextMerchantID ms, EventType = eventType,
                      AvailableItems = ''[1,2,3]'', StartTime = now2,
                      EndTime = Some endTime, IsActive = True, Items = []\<rparr>
      in (Inr merchant,
          ms\<lparr>merchantObjs := objs @ [merchant],
             activeMerchant := Some (length objs),
             merchants := merchants ms @ [merchant],
             nextMerchantID := nextMerchantID ms + 1\<rparr>))"

definition PurchaseItem ::
  "int \<Rightarrow> int \<Rightarrow> int \<Rightarrow> MemoryStorage \<Rightarrow> error option \<times> MemoryStorage" where
  "PurchaseItem characterID itemID price ms =
     (case characters ms characterID of
        None \<Rightarrow> (Some (Error ''character not found''), ms)
      | Some char \<Rightarrow>
          (case items ms itemID of
             None \<Rightarrow> (Some (Error ''item not found''), ms)
           | Some item \<Rightarrow>
               (None,
                ms\<lparr>characters :=
                     (characters ms)(characterID \<mapsto>
                        char\<lparr>ChannelPointsSpent := ChannelPointsSpent char + price\<rparr>),
                   inventories :=
                     (inventories ms)(characterID \<mapsto>
                        (case inventories ms characterID of None \<Rightarrow> [] | Some inventory \<Rightarrow> inventory)
                          @ [item])\<rparr>)))"

section \<open>Combat on the in-memory storage (package services)\<close>

text \<open>
  The draw \<^verbatim>\<open>rand.Float64()\<close> is the argument \<open>randomRoll\<close>, a real in \<open>[0, 1)\<close>.
  The quotient \<^verbatim>\<open>float64(a) / float64(b)\<close> is modelled by its exact value, without the
  rounding of IEEE 754 doubles; what IEEE 754 prescribes for a zero divisor is kept:
  the quotient is then an infinity or not a number, and every comparison with not a number
  is false.
\<close>

datatype float64 = Finite real | PosInf | NegInf | NaN

definition f64_quot :: "int \<Rightarrow> int \<Rightarrow> float64" where
  "f64_quot a b =
     (if b = 0 then (if a > 0 then PosInf else if a < 0 then NegInf else NaN)
      else Finite (real_of_int a / real_of_int b))"

fun f64_gt :: "real \<Rightarrow> float64 \<Rightarrow> bool" where
  "f64_gt r (Finite x) = (r > x)"
| "f64_gt r PosInf = False"
| "f64_gt r NegInf = True"
| "f64_gt r NaN = False"

text \<open>
  \<^verbatim>\<open>startCombatMemory\<close>. \<open>now1\<close> and \<open>now2\<close> are the clock readings of
  \<^verbatim>\<open>UpdateCharacter\<close> and \<^verbatim>\<open>AddCombatLog\<close>. The result carries the storage after
  the call.
\<close>

definition startCombatMemory ::
  "real \<Rightarrow> Time \<Rightarrow> Time \<Rightarrow> int \<Rightarrow> int \<Rightarrow> MemoryStorage \<Rightarrow> (error + CombatResult) \<times> MemoryStorage" where
  "startCombatMemory randomRoll now1 now2 attackerID defenderID ms =
     (case GetCharacterByID attackerID ms of
        Inl (Error e) \<Rightarrow> (Inl (Error (''failed to get attacker: '' @ e)), ms)
      | Inr None \<Rightarrow> (Inl (Error ''attacker not found''), ms)
      | Inr (Some attacker) \<Rightarrow>
     (case GetCharacterByID defenderID ms of
        Inl (Error e) \<Rightarrow> (Inl (Error (''failed to get defender: '' @ e)), ms)
      | Inr None \<Rightarrow> (Inl (Error ''defender not found''), ms)
      | Inr (Some defender) \<Rightarrow>
     (let attackerPower = CalculateCombatPower attacker;
          defenderPower = CalculateCombatPower defender;
          attackerChance = f64_quot attackerPower (attackerPower + defenderPower);
          (winner0, loser) =
            (if f64_gt randomRoll attackerChance then (defender, attacker)
             else (attacker, defender));
          experienceGained = 50 + (Level loser * 10);
          winner1 = winner0\<lparr>Experience := Experience winner0 + experienceGained\<rparr>;
          expForNextLevel = Level winner1 * 100;
          winner2 =
            (if Experience winner1 \<ge> expForNextLevel
             then winner1\<lparr>Level := Level winner1 + 1,
                          Experience := Experience winner1 - expForNextLevel\<rparr>
             else winner1)
      in
        case UpdateCharacter now1 winner2 ms of
          (Some (Error e), ms1) \<Rightarrow> (Inl (Error (''failed to update winner: '' @ e)), ms1)
        | (None, ms1) \<Rightarrow>
        (let winner = winner2\<lparr>UpdatedAt := now1\<rparr>;
             combatResult =
               \<lparr>Winner = winner, Loser = loser, AttackerPower = attackerPower,
                DefenderPower = defenderPower,
                CombatLogStr = Username winner @ '' defeated '' @ Username loser
                   @ ''! Experience gained: '' @ itoa experienceGained,
                ExperienceGained = experienceGained, RewardItems = []\<rparr>;
             combatLog =
               \<lparr>clID = 0, AttackerID = attackerID, DefenderID = defenderID,
                WinnerID = ID winner, clAttackerPower = attackerPower,
                clDefenderPower = defenderPower,
                CombatLogText = CombatLogStr combatResult, clCreatedAt = 0,
                clAttacker = None, clDefender = None, clWinner = None\<rparr>
         in
           case AddCombatLog now2 combatLog ms1 of
             (Some (Error e), ms2) \<Rightarrow> (Inl (Error (''failed to log combat: '' @ e)), ms2)
           | (None, ms2) \<Rightarrow> (Inr combatResult, ms2)))))"

section \<open>The relational backend and the services on it (package services)\<close>

text \<open>
  The services send SQL text to a MySQL database. A table of \<^verbatim>\<open>scripts/schema.sql\<close>
  is the list of its rows, a row being a value of the struct that the code scans it into
  (for \<^verbatim>\<open>characters\<close>, \<^verbatim>\<open>combat_logs\<close> and \<^verbatim>\<open>merchant_events\<close> the fields that are
  not columns are unset and never read). \<^verbatim>\<open>AUTO_INCREMENT\<close> counters are explicit.
  \<^verbatim>\<open>QueryRow ... WHERE id = ?\<close> is the first matching row, \<^verbatim>\<open>sql.ErrNoRows\<close> when
  there is none. The database is one that answers: errors of the connection or the driver
  are not modelled, so a branch of the source that only reports such an error has no
  counterpart here. The foreign keys of \<^verbatim>\<open>character_items\<close> are checked on insert, and
  \<^verbatim>\<open>characters.updated_at\<close> follows \<^verbatim>\<open>ON UPDATE CURRENT_TIMESTAMP\<close>.

  Every service method starts with a test \<^verbatim>\<open>database.DB == nil\<close>; the method is split
  there: \<open>X_db\<close> is the relational branch of the method \<open>X\<close>.
\<close>

record CharacterItem =
  ciID :: int
  CharacterID :: int
  ciItemID :: int
  Quantity :: int
  AcquiredAt :: Time

text \<open>
  Modelled from the spec: the table \<^verbatim>\<open>merchant_event_items\<close>, which the statements of
  \<^verbatim>\<open>MerchantService\<close> read and write and \<^verbatim>\<open>scripts/schema.sql\<close> does not declare. The
  spec gives each purchasable line item "its own item reference, price, stock, and
  purchased-count"; the columns are those of the \<^verbatim>\<open>INSERT\<close> statement of
  \<^verbatim>\<open>CreateMerchantEvent\<close>.
\<close>

record MerchantEventItem =
  meiID :: int
  MerchantEventID :: int
  meiItemID :: int
  PriceChannelPoints :: int
  Stock :: int
  Purchased :: int

record Database =
  tblCharacters :: "Character list"
  tblItems :: "Item list"
  tblCharacterItems :: "CharacterItem list"
  tblCombatLogs :: "CombatLog list"
  tblMerchantEvents :: "MerchantEvent list"
  tblMerchantEventItems :: "MerchantEventItem list"
  autoCharacterItems :: int
  autoCombatLogs :: int
  autoMerchantEvents :: int
  autoMerchantEventItems :: int

text \<open>The process state: the global \<^verbatim>\<open>database.DB\<close> and the global \<^verbatim>\<open>storage.Memory\<close>.\<close>

record System =
  DB :: "Database option"
  Memory :: MemoryStorage

definition zeroTime :: Time where
  "zeroTime = 0"

definition ItemService_GetItemByID_db :: "int \<Rightarrow> Database \<Rightarrow> error + Item option" where
  "ItemService_GetItemByID_db cid db = Inr (find (\<lambda>row. itID row = cid) (tblItems db))"

text \<open>One \<^verbatim>\<open>if character.XID != nil { equipment.X, err = itemService.GetItemByID(...) }\<close>.\<close>

definition loadSlot :: "int option \<Rightarrow> Database \<Rightarrow> error + Item option" where
  "loadSlot slotID db =
     (case slotID of None \<Rightarrow> Inr None | Some i \<Rightarrow> ItemService_GetItemByID_db i db)"

definition loadCharacterEquipment :: "Character \<Rightarrow> Database \<Rightarrow> error + Character" where
  "loadCharacterEquipment character db =
     (case loadSlot (BootsID character) db of Inl e \<Rightarrow> Inl e | Inr boots \<Rightarrow>
      case loadSlot (PantsID character) db of Inl e \<Rightarrow> Inl e | Inr pants \<Rightarrow>
      case loadSlot (ArmorID character) db of Inl e \<Rightarrow> Inl e | Inr armor \<Rightarrow>
      case loadSlot (HelmetID character) db of Inl e \<Rightarrow> Inl e | Inr helmet \<Rightarrow>
      case loadSlot (RingID character) db of Inl e \<Rightarrow> Inl e | Inr ring \<Rightarrow>
      case loadSlot (ChainID character) db of Inl e \<Rightarrow> Inl e | Inr chain \<Rightarrow>
        Inr (character\<lparr>Equipped :=
               Some \<lparr>Boots = boots, Pants = pants, Armor = armor, Helmet = helmet,
                     Ring = ring, Chain = chain\<rparr>\<rparr>))"

text \<open>Scanning the eighteen columns of a row into a zero \<^verbatim>\<open>Character\<close>.\<close>

definition scanCharacter :: "Character \<Rightarrow> Character" where
  "scanCharacter row = row\<lparr>Equipped := None, TotalStats := None, CombatPower := 0\<rparr>"

definition CharacterService_GetCharacterByID_db ::
  "int \<Rightarrow> Database \<Rightarrow> error + Character option" where
  "CharacterService_GetCharacterByID_db cid db =
     (case find (\<lambda>row. ID row = cid) (tblCharacters db) of
        None \<Rightarrow> Inr None
      | Some row \<Rightarrow>
          (case loadCharacterEquipment (scanCharacter row) db of
             Inl (Error e) \<Rightarrow> Inl (Error (''failed to load equipment: '' @ e))
           | Inr character \<Rightarrow>
               (let totalStats = CalculateTotalStats character;
                    character1 = character\<lparr>TotalStats := Some totalStats\<rparr>
                in Inr (Some (character1\<lparr>CombatPower := CalculateCombatPower character1\<rparr>)))))"

definition CharacterService_GetCharacterByID ::
  "int \<Rightarrow> System \<Rightarrow> error + Character option" where
  "CharacterService_GetCharacterByID cid sys =
     (case DB sys of
        None \<Rightarrow> Inl (Error ''database connection not available'')
      | Some db \<Rightarrow> CharacterService_GetCharacterByID_db cid db)"

text \<open>
  \<^verbatim>\<open>UPDATE characters SET level = ?, ... chain_id = ? WHERE id = ?\<close>; the method has no
  test of \<^verbatim>\<open>database.DB\<close> and is only called where a database is present.
  \<open>updateCharacterRow\<close> is the effect of the statement on a row that matches,
  \<open>sqlUpdateCharacter\<close> its effect on the database.
\<close>

definition updateCharacterRow :: "Time \<Rightarrow> Character \<Rightarrow> Character \<Rightarrow> Character" where
  "updateCharacterRow now character row =
     (let row1 = row\<lparr>Level := Level character,
                     Experience := Experience character,
                     ChannelPointsSpent := ChannelPointsSpent character,
                     Strength := Strength character,
                     Agility := Agility character,
                     Vitality := Vitality character,
                     Intelligence := Intelligence character,
                     BootsID := BootsID character,
                     PantsID := PantsID character,
                     ArmorID := ArmorID character,
                     HelmetID := HelmetID character,
                     RingID := RingID character,
                     ChainID := ChainID character\<rparr>
      in if row1 = row then row else row1\<lparr>UpdatedAt := now\<rparr>)"

definition sqlUpdateCharacter :: "Time \<Rightarrow> Character \<Rightarrow> Database \<Rightarrow> Database" where
  "sqlUpdateCharacter now character db =
     db\<lparr>tblCharacters :=
          map (\<lambda>row. if ID row = ID character then updateCharacterRow now character row
                      else row)
              (tblCharacters db)\<rparr>"

definition CharacterService_UpdateCharacter ::
  "Time \<Rightarrow> Character \<Rightarrow> Database \<Rightarrow> error option \<times> Database" where
  "CharacterService_UpdateCharacter now character db =
     (None, sqlUpdateCharacter now character db)"

text \<open>
  \<^verbatim>\<open>GetAllCharacters\<close>: nine columns are scanned into a zero \<^verbatim>\<open>Character\<close>. The rows
  come \<^verbatim>\<open>ORDER BY level DESC, experience DESC\<close>; SQL leaves the order of rows with equal
  keys open, the model keeps them in table order.
\<close>

definition scanListing :: "Character \<Rightarrow> Character" where
  "scanListing row =
     \<lparr>ID = ID row, Username = Username row, TwitchUserID = None, Level = Level row,
      Experience = Experience row, ChannelPointsSpent = 0, Strength = Strength row,
      Agility = Agility row, Vitality = Vitality row, Intelligence = Intelligence row,
      BootsID = None, PantsID = None, ArmorID = None, HelmetID = None, RingID = None,
      ChainID = None, CreatedAt = CreatedAt row, UpdatedAt = zeroTime, Equipped = None,
      TotalStats = None, CombatPower = 0\<rparr>"

definition CharacterService_GetAllCharacters_db :: "Database \<Rightarrow> error + Character list" where
  "CharacterService_GetAllCharacters_db db =
     Inr (map (\<lambda>row. let char = scanListing row
                      in char\<lparr>CombatPower := CalculateCombatPower char\<rparr>)
            (sort_key (\<lambda>row. (- Level row, - Experience row)) (tblCharacters db)))"

definition CharacterService_GetAllCharacters :: "System \<Rightarrow> error + Character list" where
  "CharacterService_GetAllCharacters sys =
     (case DB sys of
        None \<Rightarrow> Inl (Error ''database connection not available'')
      | Some db \<Rightarrow> CharacterService_GetAllCharacters_db db)"

subsection \<open>CombatService\<close>

text \<open>
  \<^verbatim>\<open>logCombat\<close>: one \<^verbatim>\<open>INSERT INTO combat_logs\<close>; the source writes the winner as
  attacker and the loser as defender. \<^verbatim>\<open>created_at\<close> is the clock of the insert,
  \<open>sqlInsertCombatLog\<close> the effect of the statement.
\<close>

definition sqlInsertCombatLog ::
  "Time \<Rightarrow> int \<Rightarrow> int \<Rightarrow> int \<Rightarrow> int \<Rightarrow> int \<Rightarrow> string \<Rightarrow> Database \<Rightarrow> Database" where
  "sqlInsertCombatLog now attackerID defenderID winnerID attackerPower defenderPower text db =
     db\<lparr>tblCombatLogs := tblCombatLogs db @
           [\<lparr>clID = autoCombatLogs db, AttackerID = attackerID, DefenderID = defenderID,
             WinnerID = winnerID, clAttackerPower = attackerPower,
             clDefenderPower = defenderPower, CombatLogText = text, clCreatedAt = now,
             clAttacker = None, clDefender = None, clWinner = None\<rparr>],
        autoCombatLogs := autoCombatLogs db + 1\<rparr>"

definition logCombat :: "Time \<Rightarrow> CombatResult \<Rightarrow> Database \<Rightarrow> error option \<times> Database" where
  "logCombat now result db =
     (let attackerID = ID (Winner result);
          defenderID = ID (Loser result)
      in (None,
          sqlInsertCombatLog now attackerID defenderID (ID (Winner result))
            (AttackerPower result) (DefenderPower result) (CombatLogStr result) db))"

definition CombatService_StartCombat_db ::
  "real \<Rightarrow> Time \<Rightarrow> Time \<Rightarrow> int \<Rightarrow> int \<Rightarrow> Database \<Rightarrow> (error + CombatResult) \<times> Database" where
  "CombatService_StartCombat_db randomRoll now1 now2 attackerID defenderID db =
     (case CharacterService_GetCharacterByID_db attackerID db of
        Inl (Error e) \<Rightarrow> (Inl (Error (''failed to get attacker: '' @ e)), db)
      | Inr None \<Rightarrow> (Inl (Error ''attacker not found''), db)
      | Inr (Some attacker) \<Rightarrow>
     (case CharacterService_GetCharacterByID_db defenderID db of
        Inl (Error e) \<Rightarrow> (Inl (Error (''failed to get defender: '' @ e)), db)
      | Inr None \<Rightarrow> (Inl (Error ''defender not found''), db)
      | Inr (Some defender) \<Rightarrow>
     (let attackerPower = CalculateCombatPower attacker;
          defenderPower = CalculateCombatPower defender;
          attackerChance = f64_quot attackerPower (attackerPower + defenderPower);
          (winner0, loser) =
            (if f64_gt randomRoll attackerChance then (defender, attacker)
             else (attacker, defender));
          experienceGained = 50 + (Level loser * 10);
          channelPointsReward = 25 + (Level loser * 5);
          winner1 = winner0\<lparr>Experience := Experience winner0 + experienceGained,
                            ChannelPointsSpent := ChannelPointsSpent winner0 - channelPointsReward\<rparr>;
          expForNextLevel = Level winner1 * 100;
          winner =
            (if Experience winner1 \<ge> expForNextLevel
             then winner1\<lparr>Level := Level winner1 + 1,
                          Experience := Experience winner1 - expForNextLevel\<rparr>
             else winner1)
      in
        case CharacterService_UpdateCharacter now1 winner db of
          (Some (Error e), db1) \<Rightarrow> (Inl (Error (''failed to update winner: '' @ e)), db1)
        | (None, db1) \<Rightarrow>
        (let combatResult =
               \<lparr>Winner = winner, Loser = loser, AttackerPower = attackerPower,
                DefenderPower = defenderPower,
                CombatLogStr = Username winner @ '' defeated '' @ Username loser
                   @ ''! Experience gained: '' @ itoa experienceGained,
                ExperienceGained = experienceGained, RewardItems = []\<rparr>
         in
           case logCombat now2 combatResult db1 of
             (Some (Error e), db2) \<Rightarrow> (Inl (Error (''failed to log combat: '' @ e)), db2)
           | (None, db2) \<Rightarrow> (Inr combatResult, db2)))))"

definition CombatService_StartCombat ::
  "real \<Rightarrow> Time \<Rightarrow> Time \<Rightarrow> int \<Rightarrow> int \<Rightarrow> System \<Rightarrow> (error + CombatResult) \<times> System" where
  "CombatService_StartCombat randomRoll now1 now2 attackerID defenderID sys =
     (case DB sys of
        None \<Rightarrow>
          (case startCombatMemory randomRoll now1 now2 attackerID defenderID (Memory sys) of
             (res, ms) \<Rightarrow> (res, sys\<lparr>Memory := ms\<rparr>))
      | Some db \<Rightarrow>
          (case CombatService_StartCombat_db randomRoll now1 now2 attackerID defenderID db of
             (res, db1) \<Rightarrow> (res, sys\<lparr>DB := Some db1\<rparr>)))"

subsection \<open>ItemService and MerchantService\<close>

text \<open>
  \<^verbatim>\<open>ORDER BY RAND() LIMIT ?\<close>: the order that \<^verbatim>\<open>RAND()\<close> produces is the argument
  \<open>shuffle\<close>; MySQL refuses a negative limit. The parameter \<^verbatim>\<open>count\<close> of the source
  is \<open>limit\<close> here.
\<close>

definition ItemService_GetRandomItems_db ::
  "(Item list \<Rightarrow> Item list) \<Rightarrow> int \<Rightarrow> bool \<Rightarrow> Database \<Rightarrow> error + Item list" where
  "ItemService_GetRandomItems_db shuffle limit isSpecial db =
     (if limit < 0 then Inl (Error ''failed to get random items: invalid limit'')
      else Inr (take (nat limit)
                  (shuffle (filter (\<lambda>row. IsSpecial row = isSpecial) (tblItems db)))))"

text \<open>
  \<^verbatim>\<open>AddItemToCharacter\<close>, relational branch: the quantity of an inventory row is raised,
  or a row is inserted; the insert needs the character and the item to exist (foreign
  keys of \<^verbatim>\<open>character_items\<close>).
\<close>

definition ItemService_AddItemToCharacter_db ::
  "Time \<Rightarrow> int \<Rightarrow> int \<Rightarrow> int \<Rightarrow> Database \<Rightarrow> error option \<times> Database" where
  "ItemService_AddItemToCharacter_db now characterID itemID quantity db =
     (case find (\<lambda>row. CharacterID row = characterID \<and> ciItemID row = itemID)
             (tblCharacterItems db) of
        None \<Rightarrow>
          (if list_ex (\<lambda>row. ID row = characterID) (tblCharacters db)
              \<and> list_ex (\<lambda>row. itID row = itemID) (tblItems db)
           then (None,
                 db\<lparr>tblCharacterItems := tblCharacterItems db @
                       [\<lparr>ciID = autoCharacterItems db, CharacterID = characterID,
                         ciItemID = itemID, Quantity = quantity, AcquiredAt = now\<rparr>],
                    autoCharacterItems := autoCharacterItems db + 1\<rparr>)
           else (Some (Error ''failed to add item to character: foreign key constraint fails''),
                 db))
      | Some currentRow \<Rightarrow>
          (None,
           db\<lparr>tblCharacterItems :=
                map (\<lambda>row. if CharacterID row = characterID \<and> ciItemID row = itemID
                            then row\<lparr>Quantity := Quantity row + quantity\<rparr> else row)
                    (tblCharacterItems db)\<rparr>))"

definition MerchantService_GetMerchantEventByID_db ::
  "int \<Rightarrow> Database \<Rightarrow> error + MerchantEvent" where
  "MerchantService_GetMerchantEventByID_db cid db =
     (case find (\<lambda>row. meID row = cid) (tblMerchantEvents db) of
        None \<Rightarrow> Inl (Error ''failed to get merchant event: sql: no rows in result set'')
      | Some row \<Rightarrow> Inr (row\<lparr>Items := []\<rparr>))"

text \<open>
  The loop of \<^verbatim>\<open>CreateMerchantEvent\<close> over the chosen items. \<open>draw k\<close> is what the
  \<open>k\<close>-th call of \<^verbatim>\<open>rand.Intn(3)\<close> returns.
\<close>

fun insertEventItems :: "int \<Rightarrow> (nat \<Rightarrow> int) \<Rightarrow> nat \<Rightarrow> Item list \<Rightarrow> Database \<Rightarrow> Database" where
  "insertEventItems eventID draw k [] db = db"
| "insertEventItems eventID draw k (item # randomItems) db =
     (let price = Value item * 2;
          stock = draw k + 1
      in insertEventItems eventID draw (Suc k) randomItems
           (db\<lparr>tblMerchantEventItems := tblMerchantEventItems db @
                 [\<lparr>meiID = autoMerchantEventItems db, MerchantEventID = eventID,
                   meiItemID = itID item, PriceChannelPoints = price, Stock = stock,
                   Purchased = 0\<rparr>],
               autoMerchantEventItems := autoMerchantEventItems db + 1\<rparr>))"

definition MerchantService_CreateMerchantEvent_db ::
  "(Item list \<Rightarrow> Item list) \<Rightarrow> (nat \<Rightarrow> int) \<Rightarrow> Time \<Rightarrow> Time \<Rightarrow> string \<Rightarrow> string \<Rightarrow> int \<Rightarrow> Database
     \<Rightarrow> (error + MerchantEvent) \<times> Database" where
  "MerchantService_CreateMerchantEvent_db shuffle draw now1 now2 title description
       durationMinutes db =
     (let db1 = db\<lparr>tblMerchantEvents :=
                     map (\<lambda>row. if IsActive row then row\<lparr>IsActive := False\<rparr> else row)
                         (tblMerchantEvents db)\<rparr>;
          startTime = now1;
          endTime = now2 + durationMinutes * 60;
          eventID = autoMerchantEvents db1;
          db2 = db1\<lparr>tblMerchantEvents := tblMerchantEvents db1 @
                      [\<lparr>meID = eventID, EventType = ''random_shop'', AvailableItems = ''[]'',
                        StartTime = startTime, EndTime = Some endTime, IsActive = True,
                        Items = []\<rparr>],
                    autoMerchantEvents := eventID + 1\<rparr>
      in case ItemService_GetRandomItems_db shuffle 3 True db2 of
           Inl (Error e) \<Rightarrow> (Inl (Error (''failed to get random items: '' @ e)), db2)
         | Inr randomItems \<Rightarrow>
             (let db3 = insertEventItems eventID draw 0 randomItems db2
              in (MerchantService_GetMerchantEventByID_db eventID db3, db3)))"

definition MerchantService_CreateMerchantEvent ::
  "(Item list \<Rightarrow> Item list) \<Rightarrow> (nat \<Rightarrow> int) \<Rightarrow> Time \<Rightarrow> Time \<Rightarrow> string \<Rightarrow> string \<Rightarrow> int \<Rightarrow> System
     \<Rightarrow> (error + MerchantEvent) \<times> System" where
  "MerchantService_CreateMerchantEvent shuffle draw now1 now2 title description
       durationMinutes sys =
     (case DB sys of
        None \<Rightarrow>
          (case CreateMerchant now1 now2 ''random_shop'' durationMinutes (Memory sys) of
             (res, ms) \<Rightarrow> (res, sys\<lparr>Memory := ms\<rparr>))
      | Some db \<Rightarrow>
          (case MerchantService_CreateMerchantEvent_db shuffle draw now1 now2 title description
                  durationMinutes db of
             (res, db1) \<Rightarrow> (res, sys\<lparr>DB := Some db1\<rparr>)))"



definition MerchantService_PurchaseItem_db ::
  "Time \<Rightarrow> Time \<Rightarrow> int \<Rightarrow> int \<Rightarrow> Database \<Rightarrow> error option \<times> Database" where
  "MerchantService_PurchaseItem_db now1 now2 characterID merchantEventItemID db =
     (case find (\<lambda>row. meiID row = merchantEventItemID) (tblMerchantEventItems db) of
        None \<Rightarrow>
          (Some (Error ''failed to get merchant event item: sql: no rows in result set''), db)
      | Some line \<Rightarrow>
     (let itemID = meiItemID line;
          price = PriceChannelPoints line;
          stock = Stock line;
          purchased = Purchased line
      in
        if purchased \<ge> stock then (Some (Error ''item is out of stock''), db)
        else
          (case CharacterService_GetCharacterByID_db characterID db of
             Inl (Error e) \<Rightarrow> (Some (Error (''failed to get character: '' @ e)), db)
           | Inr None \<Rightarrow> (Some (Error ''character not found''), db)
           | Inr (Some character) \<Rightarrow>
               if ChannelPointsSpent character + price > ChannelPointsSpent character + 1000
               then (Some (Error ''insufficient channel points''), db)
               else
                 (let db1 = db\<lparr>tblMerchantEventItems :=
                                 map (\<lambda>row. if meiID row = merchantEventItemID
                                             then row\<lparr>Purchased := Purchased row + 1\<rparr>
                                             else row)
                                     (tblMerchantEventItems db)\<rparr>
                  in case ItemService_AddItemToCharacter_db now1 characterID itemID 1 db1 of
                       (Some (Error e), db2) \<Rightarrow>
                         (Some (Error (''failed to add item to character: '' @ e)), db2)
                     | (None, db2) \<Rightarrow>
                         (case CharacterService_UpdateCharacter now2
                                 (character\<lparr>ChannelPointsSpent :=
                                     ChannelPointsSpent character + price\<rparr>) db2 of
                            (Some (Error e), db3) \<Rightarrow>
                              (Some (Error (''failed to update character: '' @ e)), db3)
                          | (None, db3) \<Rightarrow> (None, db3))))))"

text \<open>
  \<^verbatim>\<open>PurchaseItem\<close>: without a database the line-item id is used as the item id and the
  price is fixed at 100.
\<close>

definition MerchantService_PurchaseItem ::
  "Time \<Rightarrow> Time \<Rightarrow> int \<Rightarrow> int \<Rightarrow> System \<Rightarrow> error option \<times> System" where
  "MerchantService_PurchaseItem now1 now2 characterID merchantEventItemID sys =
     (case DB sys of
        None \<Rightarrow>
          (let itemID = merchantEventItemID;
               price = 100
           in case PurchaseItem characterID itemID price (Memory sys) of
                (err, ms) \<Rightarrow> (err, sys\<lparr>Memory := ms\<rparr>))
      | Some db \<Rightarrow>
          (case MerchantService_PurchaseItem_db now1 now2 characterID merchantEventItemID db of
             (err, db1) \<Rightarrow> (err, sys\<lparr>DB := Some db1\<rparr>)))"

section \<open>Notions used to state the properties\<close>




text \<open>The level-up condition of the progression rule: experience has reached \<open>level * 1000\<close>.\<close>

definition levelUpDue :: "Character \<Rightarrow> bool" where
  "levelUpDue c \<longleftrightarrow> Experience c \<ge> Level c * 1000"

text \<open>
  Example data: a character as \<^verbatim>\<open>CreateCharacter\<close> makes it (level 1, no experience,
  every stat 10), and the first sample item of the in-memory storage.
\<close>

definition newCharacter :: "int \<Rightarrow> string \<Rightarrow> Character" where
  "newCharacter cid username =
     \<lparr>ID = cid, Username = username, TwitchUserID = None, Level = 1, Experience = 0,
      ChannelPointsSpent = 0, Strength = 10, Agility = 10, Vitality = 10, Intelligence = 10,
      BootsID = None, PantsID = None, ArmorID = None, HelmetID = None, RingID = None,
      ChainID = None, CreatedAt = 0, UpdatedAt = 0, Equipped = None, TotalStats = None,
      CombatPower = 85\<rparr>"

definition ironBoots :: Item where
  "ironBoots =
     \<lparr>itID = 1, itName = ''Iron Boots'', itType = ItemTypeBoots, itRarity = RarityCommon,
      StrengthBonus = 2, AgilityBonus = 1, VitalityBonus = 1, IntelligenceBonus = 0,
      SpecialEffect = None, Value = 50, IsSpecial = False, itCreatedAt = 0\<rparr>"


definition storedCharacter :: "System \<Rightarrow> int \<Rightarrow> Character option" where
  "storedCharacter sys cid =
     (case DB sys of
        None \<Rightarrow> characters (Memory sys) cid
      | Some db \<Rightarrow> find (\<lambda>row. ID row = cid) (tblCharacters db))"


text \<open>
  Level and experience of a combat winner \<open>w\<close> after a reward, as both combat flows compute
  them: at most one level-up, at the threshold \<open>level * 100\<close>.
\<close>

definition afterReward :: "Character \<Rightarrow> int \<Rightarrow> int \<times> int" where
  "afterReward w gained =
     (if Experience w + gained \<ge> Level w * 100
      then (Level w + 1, Experience w + gained - Level w * 100)
      else (Level w, Experience w + gained))"

text \<open>
  Example data: the in-memory storage after \<^verbatim>\<open>CreateCharacter\<close> for alice and for bob,
  and the process that runs on it without a database.
\<close>

definition duelStorage :: MemoryStorage where
  "duelStorage =
     (NewMemoryStorage 0)
       \<lparr>characters := [1 \<mapsto> newCharacter 1 ''alice'', 2 \<mapsto> newCharacter 2 ''bob''],
        nextCharacterID := 3\<rparr>"

definition duelSystem :: System where
  "duelSystem = \<lparr>DB = None, Memory = duelStorage\<rparr>"

text \<open>
  Example data: alice (level 1, no experience) and a bob who has reached level 205 in
  earlier fights (the combat flow raises the level only, so his stats are still 10).
\<close>

definition veteranStorage :: MemoryStorage where
  "veteranStorage =
     (NewMemoryStorage 0)
       \<lparr>characters := [1 \<mapsto> newCharacter 1 ''alice'',
                       2 \<mapsto> (newCharacter 2 ''bob'')\<lparr>Level := 205, CombatPower := 1105\<rparr>],
        nextCharacterID := 3\<rparr>"



text \<open>
  The states of the process. It starts with a fresh in-memory storage and with no database
  or with one in which no merchant event has been created yet. Merchant events are
  created by \<^verbatim>\<open>CreateMerchantEvent\<close> and expire in \<^verbatim>\<open>GetCurrentEvent\<close>; every other
  operation (combat, purchases, character operations, ...) leaves the merchant data as
  they are, which is all that the last rule says about it.
\<close>

definition sameMerchantData :: "System \<Rightarrow> System \<Rightarrow> bool" where
  "sameMerchantData sys sys' \<longleftrightarrow>
     map_option (\<lambda>db. (tblMerchantEvents db, autoMerchantEvents db)) (DB sys')
       = map_option (\<lambda>db. (tblMerchantEvents db, autoMerchantEvents db)) (DB sys)
     \<and> merchantObjs (Memory sys') = merchantObjs (Memory sys)
     \<and> activeMerchant (Memory sys') = activeMerchant (Memory sys)"



text \<open>
  Example data: the process after a first merchant event was created, without a database
  and with a database that was empty.
\<close>

definition shopSystem :: System where
  "shopSystem =
     snd (MerchantService_CreateMerchantEvent (\<lambda>its. its) (\<lambda>k. 0) 0 0 ''Shop'' ''First'' 30
            \<lparr>DB = None, Memory = NewMemoryStorage 0\<rparr>)"



text \<open>
  Example data: a database with alice, the sample item Mystic Sword and one merchant line
  item for it (stock 1, nothing purchased yet) at the given price.
\<close>

definition mysticSword :: Item where
  "mysticSword =
     \<lparr>itID = 2, itName = ''Mystic Sword'', itType = ItemTypeRing, itRarity = RarityRare,
      StrengthBonus = 5, AgilityBonus = 3, VitalityBonus = 2, IntelligenceBonus = 4,
      SpecialEffect = Some ''Increases magic damage'', Value = 200, IsSpecial = True,
      itCreatedAt = 0\<rparr>"

definition stallDatabase :: "int \<Rightarrow> Database" where
  "stallDatabase price =
     \<lparr>tblCharacters = [(newCharacter 1 ''alice'')\<lparr>CombatPower := 0\<rparr>],
      tblItems = [mysticSword], tblCharacterItems = [], tblCombatLogs = [],
      tblMerchantEvents =
        [\<lparr>meID = 1, EventType = ''random_shop'', AvailableItems = ''[]'', StartTime = 0,
          EndTime = Some 1800, IsActive = True, Items = []\<rparr>],
      tblMerchantEventItems =
        [\<lparr>meiID = 1, MerchantEventID = 1, meiItemID = 2, PriceChannelPoints = price,
          Stock = 1, Purchased = 0\<rparr>],
      autoCharacterItems = 1, autoCombatLogs = 1, autoMerchantEvents = 2,
      autoMerchantEventItems = 2\<rparr>"

text \<open>
  The leaderboard order (level descending, then experience descending), the columns that
  the listing reads, and the combat power of the base stats alone.
\<close>

definition leaderboardOrder :: "Character \<Rightarrow> Character \<Rightarrow> bool" where
  "leaderboardOrder x y \<longleftrightarrow>
     Level x > Level y \<or> (Level x = Level y \<and> Experience x \<ge> Experience y)"

definition listedColumns ::
  "Character \<Rightarrow> int \<times> string \<times> int \<times> int \<times> int \<times> int \<times> int \<times> int \<times> Time" where
  "listedColumns c =
     (ID c, Username c, Level c, Experience c, Strength c, Agility c, Vitality c,
      Intelligence c, CreatedAt c)"

definition basePower :: "Character \<Rightarrow> int" where
  "basePower c =
     3 * Strength c + 2 * Agility c + 2 * Vitality c + 1 * Intelligence c + 5 * Level c"

text \<open>Example data: a database with three characters, in no particular order.\<close>

definition rankingDatabase :: Database where
  "rankingDatabase =
     \<lparr>tblCharacters =
        [(newCharacter 1 ''alice'')\<lparr>Experience := 50, CombatPower := 0\<rparr>,
         (newCharacter 2 ''bob'')\<lparr>Level := 3, CombatPower := 0\<rparr>,
         (newCharacter 3 ''carol'')\<lparr>Level := 3, Experience := 700, BootsID := Some 1,
                                   CombatPower := 0\<rparr>],
      tblItems = [ironBoots], tblCharacterItems = [], tblCombatLogs = [],
      tblMerchantEvents = [], tblMerchantEventItems = [], autoCharacterItems = 1,
      autoCombatLogs = 1, autoMerchantEvents = 1, autoMerchantEventItems = 1\<rparr>"

definition rankingSystem :: System where
  "rankingSystem = \<lparr>DB = Some rankingDatabase, Memory = NewMemoryStorage 0\<rparr>"

text \<open>
  The states that the in-memory storage reaches from a fresh one through
  \<^verbatim>\<open>CreateCharacter\<close> and combats (the draw of \<^verbatim>\<open>rand.Float64\<close> lies in \<open>[0, 1)\<close>).
\<close>

inductive_set storageStates :: "MemoryStorage set" where
  fresh: "NewMemoryStorage t \<in> storageStates"
| created:
    "ms \<in> storageStates \<Longrightarrow> snd (CreateCharacter now username twitchUserID ms) \<in> storageStates"
| fought:
    "ms \<in> storageStates \<Longrightarrow> 0 \<le> r \<Longrightarrow> r < 1 \<Longrightarrow>
       snd (startCombatMemory r now1 now2 attackerID defenderID ms) \<in> storageStates"

text \<open>
  A training schedule: alice attacks a level-1 bob again and again with the draw 0.
  \<open>trainingRound\<close> is one such combat, \<open>trainStep\<close> what it does to alice's level and
  experience (the reward is \<open>50 + 1 * 10\<close>), \<open>plain\<close> a character with its initial stats
  and no equipment, and \<open>arena ms (lvl, xp)\<close> a storage that holds just alice, at that
  level and experience, and bob.
\<close>

definition trainingRound :: "MemoryStorage \<Rightarrow> MemoryStorage" where
  "trainingRound ms = snd (startCombatMemory 0 0 0 1 2 ms)"

definition trainStep :: "int \<times> int \<Rightarrow> int \<times> int" where
  "trainStep p =
     (case p of (lvl, xp) \<Rightarrow>
        if xp + 60 \<ge> lvl * 100 then (lvl + 1, xp + 60 - lvl * 100) else (lvl, xp + 60))"

definition plain :: "Character \<Rightarrow> int \<Rightarrow> string \<Rightarrow> bool" where
  "plain c cid name \<longleftrightarrow>
     ID c = cid \<and> Username c = name \<and> Strength c = 10 \<and> Agility c = 10 \<and> Vitality c = 10
     \<and> Intelligence c = 10 \<and> Equipped c = None"

definition arena :: "MemoryStorage \<Rightarrow> int \<times> int \<Rightarrow> bool" where
  "arena ms p \<longleftrightarrow>
     (\<exists>a b. characters ms = [1 \<mapsto> a, 2 \<mapsto> b] \<and> nextCharacterID ms = 3
        \<and> plain a 1 ''alice'' \<and> Level a = fst p \<and> Experience a = snd p
        \<and> plain b 2 ''bob'' \<and> Level b = 1)"

section \<open>Stat totals and combat power\<close>




lemma totalStats_no_equipment:
  "Equipped c = None \<Longrightarrow> CalculateTotalStats c = CalculateBaseStats c"
  by (simp add: CalculateTotalStats_def)



section \<open>Stat upgrades\<close>




section \<open>Experience and levels\<close>

lemma levelUpLoop_trace:
  "\<exists>n. levelUpLoop c b = (b \<or> 0 < n, (levelUpStep ^^ n) c)
       \<and> (\<forall>k<n. levelUpDue ((levelUpStep ^^ k) c))
       \<and> \<not> levelUpDue ((levelUpStep ^^ n) c)"
proof (induction c b rule: levelUpLoop.induct)
  case (1 c leveledUp)
  show ?case
  proof (cases "Experience c \<ge> GetNextLevelExperience c")
    case True
    from 1[OF True] obtain n where
      n: "levelUpLoop (levelUpStep c) True = (True \<or> 0 < n, (levelUpStep ^^ n) (levelUpStep c))"
        "\<forall>k<n. levelUpDue ((levelUpStep ^^ k) (levelUpStep c))"
        "\<not> levelUpDue ((levelUpStep ^^ n) (levelUpStep c))"
      by blast
    have due: "levelUpDue c"
      using True by (simp add: levelUpDue_def GetNextLevelExperience_def)
    have "\<forall>k<Suc n. levelUpDue ((levelUpStep ^^ k) c)"
    proof (intro allI impI)
      fix k assume "k < Suc n"
      then show "levelUpDue ((levelUpStep ^^ k) c)"
        using n(2) due by (cases k) (auto simp: funpow_swap1)
    qed
    moreover have "levelUpLoop c leveledUp = (leveledUp \<or> 0 < Suc n, (levelUpStep ^^ Suc n) c)"
      using True n(1) by (simp add: funpow_swap1)
    moreover have "\<not> levelUpDue ((levelUpStep ^^ Suc n) c)"
      using n(3) by (simp add: funpow_swap1)
    ultimately show ?thesis by blast
  next
    case False
    then have "levelUpLoop c leveledUp = (leveledUp \<or> 0 < (0::nat), (levelUpStep ^^ 0) c)"
      by simp
    moreover have "\<not> levelUpDue ((levelUpStep ^^ 0) c)"
      using False by (simp add: levelUpDue_def GetNextLevelExperience_def)
    ultimately show ?thesis by blast
  qed
qed




section \<open>Combat: missing characters\<close>

lemma System_same_DB: "DB sys = Some db \<Longrightarrow> sys\<lparr>DB := Some db\<rparr> = sys"
  by (cases sys) simp

lemma System_same_Memory: "sys\<lparr>Memory := Memory sys\<rparr> = sys"
  by (cases sys) simp

lemma startCombatMemory_missing:
  assumes "characters ms aid = None \<or> characters ms did = None"
  shows "\<exists>e. startCombatMemory r n1 n2 aid did ms = (Inl e, ms)"
  using assms
  by (auto simp: startCombatMemory_def GetCharacterByID_def split: option.splits)

lemma getCharacter_db_missing:
  "find (\<lambda>row. ID row = cid) (tblCharacters db) = None \<Longrightarrow>
     CharacterService_GetCharacterByID_db cid db = Inr None"
  by (simp add: CharacterService_GetCharacterByID_db_def)

lemma startCombat_db_missing:
  assumes "find (\<lambda>row. ID row = aid) (tblCharacters db) = None
         \<or> find (\<lambda>row. ID row = did) (tblCharacters db) = None"
  shows "\<exists>e. CombatService_StartCombat_db r n1 n2 aid did db = (Inl e, db)"
proof (cases "find (\<lambda>row. ID row = aid) (tblCharacters db)")
  case None
  then show ?thesis
    by (simp add: CombatService_StartCombat_db_def getCharacter_db_missing)
next
  case (Some row)
  with assms have d: "CharacterService_GetCharacterByID_db did db = Inr None"
    by (simp add: getCharacter_db_missing)
  show ?thesis
    by (cases "CharacterService_GetCharacterByID_db aid db")
       (auto simp: CombatService_StartCombat_db_def d split: error.splits option.splits)
qed

text \<open>
  Claim C7. When the attacker or the defender does not exist in the backend in use,
  \<^verbatim>\<open>StartCombat\<close> returns an error and the whole process state (every character record,
  the combat log, everything else) is the one before the call.
\<close>

theorem combat_missing_character:
  assumes "storedCharacter sys aid = None \<or> storedCharacter sys did = None"
  shows "\<exists>e. CombatService_StartCombat r n1 n2 aid did sys = (Inl e, sys)"
proof (cases "DB sys")
  case None
  with assms have "characters (Memory sys) aid = None \<or> characters (Memory sys) did = None"
    by (simp add: storedCharacter_def)
  from startCombatMemory_missing[OF this, of r n1 n2] obtain e where
    "startCombatMemory r n1 n2 aid did (Memory sys) = (Inl e, Memory sys)" by blast
  with None show ?thesis
    by (simp add: CombatService_StartCombat_def System_same_Memory)
next
  case (Some db)
  with assms have "find (\<lambda>row. ID row = aid) (tblCharacters db) = None
         \<or> find (\<lambda>row. ID row = did) (tblCharacters db) = None"
    by (simp add: storedCharacter_def)
  from startCombat_db_missing[OF this, of r n1 n2] obtain e where
    "CombatService_StartCombat_db r n1 n2 aid did db = (Inl e, db)" by blast
  with Some show ?thesis
    by (simp add: CombatService_StartCombat_def System_same_DB)
qed

text \<open>The theorem at a defender id that nobody has: alice (1) against 7.\<close>

theorem combat_missing_character_witness:
  "storedCharacter duelSystem 7 = None
   \<and> (\<exists>e. CombatService_StartCombat (1/4) 5 6 1 7 duelSystem = (Inl e, duelSystem))"
proof -
  have m: "storedCharacter duelSystem 7 = None"
    by (simp add: storedCharacter_def duelSystem_def duelStorage_def)
  then have "storedCharacter duelSystem 1 = None \<or> storedCharacter duelSystem 7 = None"
    by simp
  from combat_missing_character [OF this, of "1/4" 5 6] m show ?thesis
    by simp
qed

section \<open>Combat: winner and reward\<close>

lemma power_ignores_cache [simp]:
  "CalculateCombatPower (c\<lparr>CombatPower := x\<rparr>) = CalculateCombatPower c"
  by (simp add: CalculateCombatPower_def CalculateTotalStats_def CalculateBaseStats_def)


lemma startCombatMemory_outcome:
  fixes r :: real and n1 n2 :: Time and aid did :: int and ms :: MemoryStorage
    and a0 d0 :: Character
  assumes a: "characters ms aid = Some a0" and d: "characters ms did = Some d0"
    and ida: "ID a0 = aid" and idd: "ID d0 = did"
  defines "a \<equiv> a0\<lparr>CombatPower := CalculateCombatPower a0\<rparr>"
    and "d \<equiv> d0\<lparr>CombatPower := CalculateCombatPower d0\<rparr>"
  defines "lose \<equiv> f64_gt r (f64_quot (CalculateCombatPower a0)
                      (CalculateCombatPower a0 + CalculateCombatPower d0))"
  defines "w \<equiv> (if lose then d else a)" and "l \<equiv> (if lose then a else d)"
  defines "gained \<equiv> 50 + Level l * 10"
  defines "w' \<equiv> w\<lparr>Level := fst (afterReward w gained),
                     Experience := snd (afterReward w gained), UpdatedAt := n1\<rparr>"
  defines "res \<equiv> \<lparr>Winner = w', Loser = l, AttackerPower = CalculateCombatPower a0,
                DefenderPower = CalculateCombatPower d0,
                CombatLogStr = Username w @ '' defeated '' @ Username l
                   @ ''! Experience gained: '' @ itoa gained,
                ExperienceGained = gained, RewardItems = []\<rparr>"
  shows "startCombatMemory r n1 n2 aid did ms =
     (Inr res,
      ms\<lparr>characters := (characters ms)(ID w \<mapsto> w'),
         combatLogs := combatLogs ms @
           [\<lparr>clID = nextCombatLogID ms, AttackerID = aid, DefenderID = did,
             WinnerID = ID w, clAttackerPower = CalculateCombatPower a0,
             clDefenderPower = CalculateCombatPower d0,
             CombatLogText = CombatLogStr res, clCreatedAt = n2,
             clAttacker = None, clDefender = None, clWinner = None\<rparr>],
         nextCombatLogID := nextCombatLogID ms + 1\<rparr>)"
proof (cases lose)
  case True
  then show ?thesis
    using a d ida idd
    unfolding res_def w'_def gained_def w_def l_def a_def d_def
    by (simp add: startCombatMemory_def GetCharacterByID_def UpdateCharacter_def
        AddCombatLog_def afterReward_def Let_def lose_def[symmetric])
next
  case False
  then show ?thesis
    using a d ida idd
    unfolding res_def w'_def gained_def w_def l_def a_def d_def
    by (simp add: startCombatMemory_def GetCharacterByID_def UpdateCharacter_def
        AddCombatLog_def afterReward_def Let_def lose_def[symmetric])
qed





lemma duelStorage_created:
  "snd (CreateCharacter 0 ''bob'' None
          (snd (CreateCharacter 0 ''alice'' None (NewMemoryStorage 0)))) = duelStorage"
  by (simp add: CreateCharacter_def NewMemoryStorage_def initializeSampleData_def duelStorage_def
      newCharacter_def CalculateCombatPower_def CalculateTotalStats_def CalculateBaseStats_def
      Let_def)


lemma newCharacter_power: "CalculateCombatPower (newCharacter cid name) = 85"
  by (simp add: newCharacter_def CalculateCombatPower_def CalculateTotalStats_def
      CalculateBaseStats_def)



section \<open>Combat: what a resolution changes\<close>





section \<open>Combat: the reward is not normalised\<close>

text \<open>
  \<^verbatim>\<open>AddExperience\<close> leaves the experience below \<open>level * 1000\<close>, whatever the amount.
\<close>

lemma addExperience_normalises: "\<not> levelUpDue (snd (AddExperience c xp))"
proof -
  from levelUpLoop_trace[of "c\<lparr>Experience := Experience c + xp\<rparr>" False] obtain n where
    "levelUpLoop (c\<lparr>Experience := Experience c + xp\<rparr>) False
       = (False \<or> 0 < n, (levelUpStep ^^ n) (c\<lparr>Experience := Experience c + xp\<rparr>))"
    and "\<not> levelUpDue ((levelUpStep ^^ n) (c\<lparr>Experience := Experience c + xp\<rparr>))"
    by blast
  then show ?thesis
    unfolding AddExperience_def by (simp only: snd_conv not_False_eq_True)
qed

text \<open>
  Claim C5 fails on the combat flow, which does not call \<^verbatim>\<open>AddExperience\<close>: it levels
  up once, at \<open>level * 100\<close>. When alice (level 1) beats a level-205 bob she gains 2100
  experience and is stored at level 2 with experience 2000, which is not below
  \<open>2 * 1000\<close>.
\<close>

theorem combat_reward_not_normalised:
  "\<exists>res ms' w. startCombatMemory 0 5 6 1 2 veteranStorage = (Inr res, ms')
      \<and> ExperienceGained res = 2100
      \<and> characters ms' 1 = Some w \<and> Level w = 2 \<and> Experience w = 2000
      \<and> \<not> Experience w < GetNextLevelExperience w"
proof -
  have s: "characters veteranStorage 1 = Some (newCharacter 1 ''alice'')"
    "characters veteranStorage 2
       = Some ((newCharacter 2 ''bob'')\<lparr>Level := 205, CombatPower := 1105\<rparr>)"
    by (simp_all add: veteranStorage_def)
  have ids: "ID (newCharacter 1 ''alice'') = 1"
    "ID ((newCharacter 2 ''bob'')\<lparr>Level := 205, CombatPower := 1105\<rparr>) = 2"
    by (simp_all add: newCharacter_def)
  have pw: "CalculateCombatPower ((newCharacter 2 ''bob'')\<lparr>Level := 205\<rparr>) = 1105"
    by (simp add: newCharacter_def CalculateCombatPower_def CalculateTotalStats_def
        CalculateBaseStats_def)
  have win: "\<not> f64_gt 0 (f64_quot (CalculateCombatPower (newCharacter 1 ''alice''))
      (CalculateCombatPower (newCharacter 1 ''alice'')
         + CalculateCombatPower ((newCharacter 2 ''bob'')\<lparr>Level := 205, CombatPower := 1105\<rparr>)))"
    by (simp add: newCharacter_power pw f64_quot_def)
  show ?thesis
    using startCombatMemory_outcome[OF s ids, of 0 5 6] win
    by (simp add: newCharacter_power pw ids afterReward_def GetNextLevelExperience_def)
       (simp add: newCharacter_def)
qed

text \<open>
  The level of the loser in that example is one that the storage reaches by itself.
  Each win of alice over a level-1 bob adds 60 experience and, at the threshold, one
  level, so that any level is reached after enough rounds.
\<close>

lemma plain_power: "plain c cid name \<Longrightarrow> CalculateCombatPower c = 80 + 5 * Level c"
  by (simp add: plain_def CalculateCombatPower_def CalculateTotalStats_def CalculateBaseStats_def)

lemma attacker_wins_at_zero:
  "0 < pa \<Longrightarrow> 0 < pd \<Longrightarrow> \<not> f64_gt 0 (f64_quot pa (pa + pd))"
proof -
  assume "0 < pa" "0 < pd"
  then have "0 \<le> real_of_int pa / real_of_int (pa + pd)" by simp
  with \<open>0 < pa\<close> \<open>0 < pd\<close> show ?thesis
    by (simp add: f64_quot_def not_less)
qed

lemma trainStep_level_up:
  "0 \<le> xp \<Longrightarrow> 1 \<le> lvl \<Longrightarrow>
     \<exists>k xp'. (trainStep ^^ k) (lvl, xp) = (lvl + 1, xp') \<and> 0 \<le> xp'"
proof (induction "nat (lvl * 100 - xp)" arbitrary: xp rule: less_induct)
  case less
  show ?case
  proof (cases "xp + 60 \<ge> lvl * 100")
    case True
    then have "(trainStep ^^ 1) (lvl, xp) = (lvl + 1, xp + 60 - lvl * 100)"
      by (simp add: trainStep_def)
    moreover have "0 \<le> xp + 60 - lvl * 100" using True by simp
    ultimately show ?thesis by blast
  next
    case False
    then have "nat (lvl * 100 - (xp + 60)) < nat (lvl * 100 - xp)" by simp
    from less.hyps[OF this] less.prems obtain k xp' where
      k: "(trainStep ^^ k) (lvl, xp + 60) = (lvl + 1, xp')" "0 \<le> xp'"
      by auto
    have "trainStep (lvl, xp) = (lvl, xp + 60)"
      using False by (simp add: trainStep_def)
    then have "(trainStep ^^ Suc k) (lvl, xp) = (lvl + 1, xp')"
      using k(1) by (simp add: funpow_swap1)
    with k(2) show ?thesis by blast
  qed
qed

lemma trainStep_reaches:
  "0 \<le> xp \<Longrightarrow> 1 \<le> lvl \<Longrightarrow>
     \<exists>k xp'. (trainStep ^^ k) (lvl, xp) = (lvl + int n, xp') \<and> 0 \<le> xp'"
proof (induction n)
  case 0
  then have "(trainStep ^^ 0) (lvl, xp) = (lvl + int 0, xp)" by simp
  with 0 show ?case by blast
next
  case (Suc n)
  then obtain k xp' where k: "(trainStep ^^ k) (lvl, xp) = (lvl + int n, xp')" "0 \<le> xp'"
    by blast
  from trainStep_level_up[OF k(2), of "lvl + int n"] Suc.prems obtain j xp'' where
    j: "(trainStep ^^ j) (lvl + int n, xp') = (lvl + int n + 1, xp'')" "0 \<le> xp''"
    by auto
  have "(trainStep ^^ (j + k)) (lvl, xp) = (lvl + int (Suc n), xp'')"
    using k(1) j(1) by (simp add: funpow_add add.commute add.left_commute)
  with j(2) show ?case by blast
qed

lemma plain_kept:
  "plain c cid name \<Longrightarrow>
     plain (c\<lparr>CombatPower := p, Level := l, Experience := x, UpdatedAt := u\<rparr>) cid name"
  by (simp add: plain_def)

lemma arena_round:
  assumes ar: "arena ms p" and lv: "1 \<le> fst p"
  shows "arena (snd (startCombatMemory 0 n1 n2 1 2 ms)) (trainStep p)"
proof -
  from ar obtain a b where
    ch: "characters ms = [1 \<mapsto> a, 2 \<mapsto> b]" and nx: "nextCharacterID ms = 3"
    and a: "plain a 1 ''alice''" "Level a = fst p" "Experience a = snd p"
    and b: "plain b 2 ''bob''" "Level b = 1"
    by (auto simp: arena_def)
  have s: "characters ms 1 = Some a" "characters ms 2 = Some b"
    by (simp_all add: ch)
  have ids: "ID a = 1" "ID b = 2"
    using a(1) b(1) by (simp_all add: plain_def)
  have pw: "CalculateCombatPower a = 80 + 5 * fst p" "CalculateCombatPower b = 85"
    using plain_power[OF a(1)] plain_power[OF b(1)] a(2) b(2) by simp_all
  have win: "\<not> f64_gt 0 (f64_quot (CalculateCombatPower a)
      (CalculateCombatPower a + CalculateCombatPower b))"
    using lv by (intro attacker_wins_at_zero) (simp_all add: pw)
  let ?w = "a\<lparr>CombatPower := CalculateCombatPower a,
               Level := fst (afterReward (a\<lparr>CombatPower := CalculateCombatPower a\<rparr>) 60),
               Experience := snd (afterReward (a\<lparr>CombatPower := CalculateCombatPower a\<rparr>) 60),
               UpdatedAt := n1\<rparr>"
  have out: "characters (snd (startCombatMemory 0 n1 n2 1 2 ms)) = (characters ms)(1 \<mapsto> ?w)"
    "nextCharacterID (snd (startCombatMemory 0 n1 n2 1 2 ms)) = nextCharacterID ms"
    using win b(2) ids unfolding startCombatMemory_outcome[OF s ids, of 0 n1 n2]
    by simp_all
  have t: "afterReward (a\<lparr>CombatPower := CalculateCombatPower a\<rparr>) 60 = trainStep p"
    using a(2,3) by (cases p) (simp add: afterReward_def trainStep_def)
  have c: "characters (snd (startCombatMemory 0 n1 n2 1 2 ms)) = [1 \<mapsto> ?w, 2 \<mapsto> b]"
    unfolding out(1) ch by (rule ext) simp
  have pl: "plain ?w 1 ''alice''" by (rule plain_kept[OF a(1)])
  have le: "Level ?w = fst (trainStep p)" "Experience ?w = snd (trainStep p)"
    by (simp_all add: t)
  have "characters (snd (startCombatMemory 0 n1 n2 1 2 ms)) = [1 \<mapsto> ?w, 2 \<mapsto> b]
      \<and> nextCharacterID (snd (startCombatMemory 0 n1 n2 1 2 ms)) = 3
      \<and> plain ?w 1 ''alice'' \<and> Level ?w = fst (trainStep p)
      \<and> Experience ?w = snd (trainStep p) \<and> plain b 2 ''bob'' \<and> Level b = 1"
    using c pl le b out(2) nx by (simp only: simp_thms)
  then show ?thesis
    unfolding arena_def by (intro exI[where x = "?w"] exI[where x = b])
qed

lemma trainStep_level: "fst p \<le> fst (trainStep p)"
  by (cases p) (simp add: trainStep_def)

lemma arena_rounds:
  "arena ms p \<Longrightarrow> 1 \<le> fst p \<Longrightarrow> arena ((trainingRound ^^ k) ms) ((trainStep ^^ k) p)"
proof (induction k arbitrary: ms p)
  case 0
  then show ?case by simp
next
  case (Suc k)
  have "arena (trainingRound ms) (trainStep p)"
    unfolding trainingRound_def using Suc.prems by (rule arena_round)
  moreover have "1 \<le> fst (trainStep p)"
    using Suc.prems(2) trainStep_level[of p] by simp
  ultimately have "arena ((trainingRound ^^ k) (trainingRound ms)) ((trainStep ^^ k) (trainStep p))"
    by (rule Suc.IH)
  then show ?case by (simp add: funpow_swap1)
qed

lemma round_reachable:
  "ms \<in> storageStates \<Longrightarrow> trainingRound ms \<in> storageStates"
  unfolding trainingRound_def by (rule storageStates.fought) simp_all

lemma rounds_reachable:
  "ms \<in> storageStates \<Longrightarrow> (trainingRound ^^ k) ms \<in> storageStates"
  by (induction k) (simp_all add: round_reachable)

lemma duelStorage_reachable: "duelStorage \<in> storageStates"
proof -
  have "snd (CreateCharacter 0 ''bob'' None
          (snd (CreateCharacter 0 ''alice'' None (NewMemoryStorage 0)))) \<in> storageStates"
    by (intro storageStates.created storageStates.fresh)
  then show ?thesis by (simp only: duelStorage_created)
qed

lemma arena_duel: "arena duelStorage (1, 0)"
  unfolding arena_def
  by (intro exI[where x = "newCharacter 1 ''alice''"] exI[where x = "newCharacter 2 ''bob''"])
     (simp add: duelStorage_def plain_def newCharacter_def)

lemma veteran_reachable:
  "\<exists>ms xp. ms \<in> storageStates \<and> arena ms (205, xp)"
proof -
  from trainStep_reaches[of 0 1 204] obtain k xp where
    k: "(trainStep ^^ k) (1, 0) = (205, xp)" by auto
  have "arena ((trainingRound ^^ k) duelStorage) ((trainStep ^^ k) (1, 0))"
    by (rule arena_rounds[OF arena_duel]) simp
  with k have "arena ((trainingRound ^^ k) duelStorage) (205, xp)" by simp
  moreover have "(trainingRound ^^ k) duelStorage \<in> storageStates"
    by (rule rounds_reachable[OF duelStorage_reachable])
  ultimately show ?thesis by blast
qed

text \<open>
  A newcomer who then beats the level-205 character gains 2100 experience and is stored
  at level 2 with experience 2000.
\<close>

lemma newcomer_beats_veteran:
  assumes ar: "arena ms (205, xp)"
  shows "\<exists>c. characters (snd (startCombatMemory 0 n1 n2 3 1
                  (snd (CreateCharacter now ''carol'' None ms)))) 3 = Some c
           \<and> Level c = 2 \<and> Experience c = 2000"
proof -
  from ar obtain a b where
    ch: "characters ms = [1 \<mapsto> a, 2 \<mapsto> b]" and nx: "nextCharacterID ms = 3"
    and a: "plain a 1 ''alice''" "Level a = 205"
    and b: "plain b 2 ''bob''"
    by (auto simp: arena_def)
  define carol where "carol = (newCharacter 3 ''carol'')\<lparr>CreatedAt := now, UpdatedAt := now\<rparr>"
  define ms2 where "ms2 = snd (CreateCharacter now ''carol'' None ms)"
  have fresh: "\<not> (\<exists>c \<in> ran (characters ms). Username c = ''carol'')"
    using a(1) b by (auto simp: ch ran_def plain_def split: if_splits)
  have ch2: "characters ms2 = [1 \<mapsto> a, 2 \<mapsto> b, 3 \<mapsto> carol]"
    unfolding ms2_def carol_def using fresh
    by (simp add: CreateCharacter_def Let_def nx ch newCharacter_def CalculateCombatPower_def
        CalculateTotalStats_def CalculateBaseStats_def)
  have s: "characters ms2 3 = Some carol" "characters ms2 1 = Some a"
    by (simp_all add: ch2)
  have ids: "ID carol = 3" "ID a = 1"
    using a(1) by (simp_all add: carol_def newCharacter_def plain_def)
  have pw: "CalculateCombatPower carol = 85" "CalculateCombatPower a = 1105"
    using plain_power[OF a(1)] a(2)
    by (simp_all add: carol_def newCharacter_def CalculateCombatPower_def
        CalculateTotalStats_def CalculateBaseStats_def)
  have win: "\<not> f64_gt 0 (f64_quot (CalculateCombatPower carol)
      (CalculateCombatPower carol + CalculateCombatPower a))"
    by (intro attacker_wins_at_zero) (simp_all add: pw)
  have lv: "Level carol = 1" "Experience carol = 0"
    by (simp_all add: carol_def newCharacter_def)
  show ?thesis
    unfolding ms2_def[symmetric] startCombatMemory_outcome[OF s ids, of 0 n1 n2]
    using win by (simp add: ids a(2) lv afterReward_def)
qed

theorem unnormalised_state_reachable:
  "\<exists>ms c. ms \<in> storageStates \<and> characters ms 3 = Some c
      \<and> \<not> Experience c < GetNextLevelExperience c"
proof -
  from veteran_reachable obtain ms xp where
    ms: "ms \<in> storageStates" "arena ms (205, xp)" by blast
  let ?ms' = "snd (startCombatMemory 0 0 0 3 1 (snd (CreateCharacter 0 ''carol'' None ms)))"
  from newcomer_beats_veteran[OF ms(2), of 0 0 0] obtain c where
    c: "characters ?ms' 3 = Some c" "Level c = 2" "Experience c = 2000" by blast
  have "?ms' \<in> storageStates"
    by (intro storageStates.fought storageStates.created ms(1)) simp_all
  moreover have "\<not> Experience c < GetNextLevelExperience c"
    using c(2,3) by (simp add: GetNextLevelExperience_def)
  ultimately show ?thesis using c(1) by blast
qed

section \<open>Merchant events: at most one is active\<close>

lemma insertEventItems_events [simp]:
  "tblMerchantEvents (insertEventItems eventID draw k its db) = tblMerchantEvents db"
  "autoMerchantEvents (insertEventItems eventID draw k its db) = autoMerchantEvents db"
  by (induction its arbitrary: k db) (simp_all add: Let_def)

lemma filter_deactivated [simp]:
  "filter IsActive (map (\<lambda>row. if IsActive row then row\<lparr>IsActive := False\<rparr> else row) tbl) = []"
  by (induction tbl) auto















text \<open>
  The copies in the slice\<^verbatim>\<open>merchants\<close> are not reached by the write through
  \<^verbatim>\<open>activeMerchant\<close>: each keeps the flag it was created with. No function of the
  repository reads the slice.
\<close>

lemma merchants_copies_keep_flag:
  "map IsActive (merchants (Memory (snd (MerchantService_CreateMerchantEvent (\<lambda>its. its)
      (\<lambda>k. 0) 40 40 ''Shop'' ''Second'' 30 shopSystem)))) = [True, True]"
  by (simp add: shopSystem_def MerchantService_CreateMerchantEvent_def CreateMerchant_def
      NewMemoryStorage_def initializeSampleData_def Let_def)

text \<open>Operations other thanthe two merchant operations leave the merchant data alone.\<close>

lemma startCombatMemory_merchants:
  "merchantObjs (snd (startCombatMemory r n1 n2 aid did ms)) = merchantObjs ms
   \<and> activeMerchant (snd (startCombatMemory r n1 n2 aid did ms)) = activeMerchant ms"
  by (auto simp: startCombatMemory_def GetCharacterByID_def UpdateCharacter_def AddCombatLog_def
      Let_def split: option.splits sum.splits error.splits prod.splits if_splits)

lemma sqlUpdateCharacter_merchants [simp]:
  "tblMerchantEvents (sqlUpdateCharacter now c db) = tblMerchantEvents db"
  "autoMerchantEvents (sqlUpdateCharacter now c db) = autoMerchantEvents db"
  by (simp_all add: sqlUpdateCharacter_def)

lemma sqlInsertCombatLog_merchants [simp]:
  "tblMerchantEvents (sqlInsertCombatLog now a d w pa pd txt db) = tblMerchantEvents db"
  "autoMerchantEvents (sqlInsertCombatLog now a d w pa pd txt db) = autoMerchantEvents db"
  by (simp_all add: sqlInsertCombatLog_def)

lemma startCombat_db_merchants:
  "CombatService_StartCombat_db r n1 n2 aid did db = (res, db') \<Longrightarrow>
     tblMerchantEvents db' = tblMerchantEvents db
     \<and> autoMerchantEvents db' = autoMerchantEvents db"
  by (auto simp: CombatService_StartCombat_db_def CharacterService_UpdateCharacter_def
      logCombat_def Let_def split: option.splits sum.splits error.splits prod.splits if_splits)

lemma startCombatMemory_merchants':
  "startCombatMemory r n1 n2 aid did ms = (res, ms') \<Longrightarrow>
     merchantObjs ms' = merchantObjs ms \<and> activeMerchant ms' = activeMerchant ms"
  using startCombatMemory_merchants[of r n1 n2 aid did ms] by simp

lemma startCombat_other:
  "sameMerchantData sys (snd (CombatService_StartCombat r n1 n2 aid did sys))"
  by (auto simp: sameMerchantData_def CombatService_StartCombat_def
      dest: startCombatMemory_merchants' startCombat_db_merchants
      split: option.splits prod.splits)

lemma addItemToCharacter_merchants:
  "ItemService_AddItemToCharacter_db now c i q db = (err, db') \<Longrightarrow>
     tblMerchantEvents db' = tblMerchantEvents db
     \<and> autoMerchantEvents db' = autoMerchantEvents db"
  by (auto simp: ItemService_AddItemToCharacter_db_def split: option.splits if_splits)

lemma purchaseItem_db_merchants:
  "MerchantService_PurchaseItem_db n1 n2 c i db = (err, db') \<Longrightarrow>
     tblMerchantEvents db' = tblMerchantEvents db
     \<and> autoMerchantEvents db' = autoMerchantEvents db"
  by (auto simp: MerchantService_PurchaseItem_db_def CharacterService_UpdateCharacter_def
      Let_def dest!: addItemToCharacter_merchants
      split: option.splits sum.splits error.splits prod.splits if_splits)

lemma purchaseItem_other:
  "sameMerchantData sys (snd (MerchantService_PurchaseItem n1 n2 c i sys))"
  by (auto simp: sameMerchantData_def MerchantService_PurchaseItem_def PurchaseItem_def
      Let_def dest: purchaseItem_db_merchants split: option.splits prod.splits)

lemma createCharacter_other:
  "sameMerchantData sys (sys\<lparr>Memory := snd (CreateCharacter now u tw (Memory sys))\<rparr>)"
  by (simp add: sameMerchantData_def CreateCharacter_def Let_def)

section \<open>Purchases and stock\<close>

lemma loadSlot_ok: "\<exists>it. loadSlot slotID db = Inr it"
  by (simp add: loadSlot_def ItemService_GetItemByID_db_def split: option.splits)

lemma loadCharacterEquipment_ok:
  "\<exists>e. loadCharacterEquipment c db = Inr (c\<lparr>Equipped := Some e\<rparr>)"
proof -
  obtain boots pants armor helmet ring chain where
    "loadSlot (BootsID c) db = Inr boots" "loadSlot (PantsID c) db = Inr pants"
    "loadSlot (ArmorID c) db = Inr armor" "loadSlot (HelmetID c) db = Inr helmet"
    "loadSlot (RingID c) db = Inr ring" "loadSlot (ChainID c) db = Inr chain"
    using loadSlot_ok by metis
  then have "loadCharacterEquipment c db =
      Inr (c\<lparr>Equipped := Some \<lparr>Boots = boots, Pants = pants, Armor = armor,
                                Helmet = helmet, Ring = ring, Chain = chain\<rparr>\<rparr>)"
    by (simp add: loadCharacterEquipment_def)
  then show ?thesis by blast
qed

lemma find_id: "find (\<lambda>row. ID row = cid) tbl = Some row \<Longrightarrow> ID row = cid"
  by (induction tbl) (auto split: if_splits)

lemma getCharacter_db_found:
  assumes "find (\<lambda>row. ID row = cid) (tblCharacters db) = Some row"
  shows "\<exists>c. CharacterService_GetCharacterByID_db cid db = Inr (Some c)
     \<and> ID c = cid \<and> ChannelPointsSpent c = ChannelPointsSpent row"
proof -
  obtain e where
    "loadCharacterEquipment (scanCharacter row) db = Inr ((scanCharacter row)\<lparr>Equipped := Some e\<rparr>)"
    using loadCharacterEquipment_ok by blast
  with assms find_id[OF assms] show ?thesis
    by (simp add: CharacterService_GetCharacterByID_db_def scanCharacter_def Let_def)
qed

lemma find_map_same_key:
  assumes "\<And>x. P (f x) = P x"
  shows "find P (map f xs) = map_option f (find P xs)"
  using assms by (induction xs) auto

lemma purchase_out_of_stock:
  assumes "find (\<lambda>row. meiID row = lid) (tblMerchantEventItems db) = Some line"
    and "Purchased line \<ge> Stock line"
  shows "MerchantService_PurchaseItem_db n1 n2 cid lid db
           = (Some (Error ''item is out of stock''), db)"
  using assms by (simp add: MerchantService_PurchaseItem_db_def Let_def)

lemma addItemToCharacter_ok:
  assumes "list_ex (\<lambda>row. ID row = cid) (tblCharacters db)"
    and "list_ex (\<lambda>row. itID row = iid) (tblItems db)"
  shows "\<exists>db'. ItemService_AddItemToCharacter_db now cid iid q db = (None, db')
     \<and> tblMerchantEventItems db' = tblMerchantEventItems db
     \<and> tblCharacters db' = tblCharacters db"
  using assms by (simp add: ItemService_AddItemToCharacter_db_def split: option.splits)

lemma purchase_in_stock:
  assumes line: "find (\<lambda>row. meiID row = lid) (tblMerchantEventItems db) = Some line"
    and stock: "Purchased line < Stock line"
    and buyer: "find (\<lambda>row. ID row = cid) (tblCharacters db) = Some row"
    and price: "PriceChannelPoints line \<le> 1000"
    and item: "list_ex (\<lambda>row. itID row = meiItemID line) (tblItems db)"
  shows "\<exists>db'. MerchantService_PurchaseItem_db n1 n2 cid lid db = (None, db')
     \<and> tblMerchantEventItems db' =
         map (\<lambda>row. if meiID row = lid then row\<lparr>Purchased := Purchased row + 1\<rparr> else row)
             (tblMerchantEventItems db)"
proof -
  from getCharacter_db_found[OF buyer] obtain c where
    c: "CharacterService_GetCharacterByID_db cid db = Inr (Some c)" by blast
  let ?db1 = "db\<lparr>tblMerchantEventItems :=
      map (\<lambda>row. if meiID row = lid then row\<lparr>Purchased := Purchased row + 1\<rparr> else row)
          (tblMerchantEventItems db)\<rparr>"
  have "list_ex (\<lambda>row. ID row = cid) (tblCharacters ?db1)"
    using buyer find_id[OF buyer] by (auto simp: list_ex_iff find_Some_iff)
  moreover have "list_ex (\<lambda>row. itID row = meiItemID line) (tblItems ?db1)"
    using item by simp
  ultimately obtain db2 where
    a: "ItemService_AddItemToCharacter_db n1 cid (meiItemID line) 1 ?db1 = (None, db2)"
    and t: "tblMerchantEventItems db2 = tblMerchantEventItems ?db1"
    using addItemToCharacter_ok by blast
  show ?thesis
    using line stock price c a t
    by (simp add: MerchantService_PurchaseItem_db_def CharacterService_UpdateCharacter_def
        sqlUpdateCharacter_def Let_def)
qed

text \<open>
  Claim C9, on the relational backend. For a line item \<open>line\<close> that the call finds:
  when \<open>purchased \<ge> stock\<close> the call is refused as out of stock and the database is
  unchanged; when \<open>purchased < stock\<close>, the buyer exists, the price is at most 1000 and
  the item exists, the call succeeds and the purchased count of the line item is one
  higher; and if that was the last unit, the next attempt on the same line item, by any
  buyer, is refused as out of stock.
\<close>

theorem purchase_stock:
  fixes n1 n2 n3 n4 :: Time and cid cid2 lid :: int and db :: Database
    and line :: MerchantEventItem
  assumes line: "find (\<lambda>row. meiID row = lid) (tblMerchantEventItems db) = Some line"
  shows "(Purchased line \<ge> Stock line \<longrightarrow>
            MerchantService_PurchaseItem_db n1 n2 cid lid db
              = (Some (Error ''item is out of stock''), db))
     \<and> (Purchased line < Stock line
          \<and> find (\<lambda>row. ID row = cid) (tblCharacters db) \<noteq> None
          \<and> PriceChannelPoints line \<le> 1000
          \<and> list_ex (\<lambda>row. itID row = meiItemID line) (tblItems db) \<longrightarrow>
           (\<exists>db'. MerchantService_PurchaseItem_db n1 n2 cid lid db = (None, db')
              \<and> find (\<lambda>row. meiID row = lid) (tblMerchantEventItems db')
                  = Some (line\<lparr>Purchased := Purchased line + 1\<rparr>)
              \<and> (Stock line = Purchased line + 1 \<longrightarrow>
                    MerchantService_PurchaseItem_db n3 n4 cid2 lid db'
                      = (Some (Error ''item is out of stock''), db'))))"
proof (intro conjI impI)
  assume "Purchased line \<ge> Stock line"
  with line show "MerchantService_PurchaseItem_db n1 n2 cid lid db
              = (Some (Error ''item is out of stock''), db)"
    by (rule purchase_out_of_stock)
next
  assume h: "Purchased line < Stock line
          \<and> find (\<lambda>row. ID row = cid) (tblCharacters db) \<noteq> None
          \<and> PriceChannelPoints line \<le> 1000
          \<and> list_ex (\<lambda>row. itID row = meiItemID line) (tblItems db)"
  then obtain row where buyer: "find (\<lambda>row. ID row = cid) (tblCharacters db) = Some row"
    by auto
  from purchase_in_stock[OF line _ buyer, of n1 n2] h obtain db' where
    ok: "MerchantService_PurchaseItem_db n1 n2 cid lid db = (None, db')"
    and tbl: "tblMerchantEventItems db' =
         map (\<lambda>row. if meiID row = lid then row\<lparr>Purchased := Purchased row + 1\<rparr> else row)
             (tblMerchantEventItems db)"
    by blast
  have key: "meiID line = lid"
    using line by (auto simp: find_Some_iff)
  have "find (\<lambda>row. meiID row = lid) (tblMerchantEventItems db')
      = map_option (\<lambda>row. if meiID row = lid then row\<lparr>Purchased := Purchased row + 1\<rparr> else row)
          (find (\<lambda>row. meiID row = lid) (tblMerchantEventItems db))"
    unfolding tbl by (rule find_map_same_key) simp
  with line key have line': "find (\<lambda>row. meiID row = lid) (tblMerchantEventItems db')
      = Some (line\<lparr>Purchased := Purchased line + 1\<rparr>)"
    by simp
  have "Stock line = Purchased line + 1 \<longrightarrow>
      MerchantService_PurchaseItem_db n3 n4 cid2 lid db'
        = (Some (Error ''item is out of stock''), db')"
    using purchase_out_of_stock[OF line', of n3 n4 cid2] by simp
  with ok line' show "\<exists>db'. MerchantService_PurchaseItem_db n1 n2 cid lid db = (None, db')
              \<and> find (\<lambda>row. meiID row = lid) (tblMerchantEventItems db')
                  = Some (line\<lparr>Purchased := Purchased line + 1\<rparr>)
              \<and> (Stock line = Purchased line + 1 \<longrightarrow>
                    MerchantService_PurchaseItem_db n3 n4 cid2 lid db'
                      = (Some (Error ''item is out of stock''), db'))"
    by blast
qed

text \<open>The theorem at a line item with one unit at the price 400.\<close>

theorem purchase_stock_witness:
  "find (\<lambda>row. meiID row = 1) (tblMerchantEventItems (stallDatabase 400))
     = Some \<lparr>meiID = 1, MerchantEventID = 1, meiItemID = 2, PriceChannelPoints = 400,
             Stock = 1, Purchased = 0\<rparr>
   \<and> (\<exists>db'. MerchantService_PurchaseItem_db 10 11 1 1 (stallDatabase 400) = (None, db')
         \<and> MerchantService_PurchaseItem_db 20 21 1 1 db'
             = (Some (Error ''item is out of stock''), db'))"
proof -
  have line: "find (\<lambda>row. meiID row = 1) (tblMerchantEventItems (stallDatabase 400))
     = Some \<lparr>meiID = 1, MerchantEventID = 1, meiItemID = 2, PriceChannelPoints = 400,
             Stock = 1, Purchased = 0\<rparr>"
    by (simp add: stallDatabase_def)
  show ?thesis
    using purchase_stock [OF line, of 10 11 1 20 21 1] line
    by (auto simp: stallDatabase_def newCharacter_def mysticSword_def)
qed

text \<open>
  The claim as stated fails twice. On the database the last unit of a line item that costs
  2000 cannot be bought: the placeholder check refuses every price above 1000. Without a
  database \<^verbatim>\<open>PurchaseItem\<close> has no stock to check: the same purchase succeeds again
  and again.
\<close>

theorem purchase_stock_counterexample:
  "MerchantService_PurchaseItem_db 10 11 1 1 (stallDatabase 2000)
     = (Some (Error ''insufficient channel points''), stallDatabase 2000)
   \<and> fst (MerchantService_PurchaseItem 10 11 1 1 duelSystem) = None
   \<and> fst (MerchantService_PurchaseItem 20 21 1 1
             (snd (MerchantService_PurchaseItem 10 11 1 1 duelSystem))) = None"
proof -
  have "find (\<lambda>row. ID row = 1) (tblCharacters (stallDatabase 2000))
      = Some ((newCharacter 1 ''alice'')\<lparr>CombatPower := 0\<rparr>)"
    by (simp add: stallDatabase_def newCharacter_def)
  from getCharacter_db_found[OF this] obtain c where
    "CharacterService_GetCharacterByID_db 1 (stallDatabase 2000) = Inr (Some c)" by blast
  then have "MerchantService_PurchaseItem_db 10 11 1 1 (stallDatabase 2000)
     = (Some (Error ''insufficient channel points''), stallDatabase 2000)"
    by (simp add: MerchantService_PurchaseItem_db_def Let_def) (simp add: stallDatabase_def)
  moreover have "fst (MerchantService_PurchaseItem 10 11 1 1 duelSystem) = None"
    "fst (MerchantService_PurchaseItem 20 21 1 1
             (snd (MerchantService_PurchaseItem 10 11 1 1 duelSystem))) = None"
    by (simp_all add: MerchantService_PurchaseItem_def PurchaseItem_def duelSystem_def
        duelStorage_def NewMemoryStorage_def initializeSampleData_def Let_def)
  ultimately show ?thesis by simp
qed

section \<open>The character listing\<close>

lemma key_order:
  "((- Level x, - Experience x) \<le> (- Level y, - Experience y)) = leaderboardOrder x y"
  by (auto simp: leaderboardOrder_def less_eq_prod_def)

lemma sorted_leaderboard:
  "sorted_wrt leaderboardOrder (sort_key (\<lambda>row. (- Level row, - Experience row)) tbl)"
proof -
  have "sorted (map (\<lambda>row. (- Level row, - Experience row))
          (sort_key (\<lambda>row. (- Level row, - Experience row)) tbl))"
    by (rule sorted_sort_key)
  then have "sorted_wrt (\<lambda>x y. (- Level x, - Experience x) \<le> (- Level y, - Experience y))
      (sort_key (\<lambda>row. (- Level row, - Experience row)) tbl)"
    by (simp only: sorted_map)
  then show ?thesis
    by (simp only: key_order) 
qed

lemma listed_fields:
  "listedColumns ((scanListing row)\<lparr>CombatPower := p\<rparr>) = listedColumns row"
  "Level ((scanListing row)\<lparr>CombatPower := p\<rparr>) = Level row"
  "Experience ((scanListing row)\<lparr>CombatPower := p\<rparr>) = Experience row"
  "Equipped ((scanListing row)\<lparr>CombatPower := p\<rparr>) = None"
  "CalculateCombatPower (scanListing row) = basePower row"
  "basePower ((scanListing row)\<lparr>CombatPower := p\<rparr>) = basePower row"
  by (simp_all add: listedColumns_def scanListing_def basePower_def CalculateCombatPower_def
      CalculateTotalStats_def CalculateBaseStats_def)

text \<open>
  Claim C10, with a database. \<^verbatim>\<open>GetAllCharacters\<close> returns every row of the table
  (the nine columns it reads), in leaderboard order, each without equipment and with the
  combat power of its base stats.
\<close>

theorem listAll_leaderboard:
  assumes "DB sys = Some db"
  shows "\<exists>cs. CharacterService_GetAllCharacters sys = Inr cs
     \<and> mset (map listedColumns cs) = mset (map listedColumns (tblCharacters db))
     \<and> sorted_wrt leaderboardOrder cs
     \<and> (\<forall>c \<in> set cs. Equipped c = None \<and> CombatPower c = basePower c)"
proof -
  let ?rows = "sort_key (\<lambda>row. (- Level row, - Experience row)) (tblCharacters db)"
  let ?f = "\<lambda>row. (scanListing row)\<lparr>CombatPower := CalculateCombatPower (scanListing row)\<rparr>"
  have r: "CharacterService_GetAllCharacters sys = Inr (map ?f ?rows)"
    using assms
    by (simp add: CharacterService_GetAllCharacters_def CharacterService_GetAllCharacters_db_def
        Let_def)
  have "map listedColumns (map ?f ?rows) = map listedColumns ?rows"
    by (simp add: listed_fields)
  then have a: "mset (map listedColumns (map ?f ?rows))
      = mset (map listedColumns (tblCharacters db))"
    by (simp only: mset_map mset_sort)
  have o: "\<And>x y. leaderboardOrder (?f x) (?f y) = leaderboardOrder x y"
    by (simp add: leaderboardOrder_def listed_fields)
  have s: "sorted_wrt leaderboardOrder (map ?f ?rows)"
    using sorted_leaderboard[of "tblCharacters db"] by (simp add: sorted_wrt_map o)
  have p: "\<forall>c \<in> set (map ?f ?rows). Equipped c = None \<and> CombatPower c = basePower c"
    by (auto simp: listed_fields)
  from r a s p show ?thesis by blast
qed

text \<open>
  The theorem at three characters: carol (level 3, experience 700) comes before bob
  (level 3, experience 0) and alice (level 1); carol's boots do not count.
\<close>

theorem listAll_leaderboard_witness:
  "DB rankingSystem = Some rankingDatabase
   \<and> (\<exists>cs. CharacterService_GetAllCharacters rankingSystem = Inr cs
         \<and> map Username cs = [''carol'', ''bob'', ''alice'']
         \<and> map CombatPower cs = [95, 95, 85]
         \<and> sorted_wrt leaderboardOrder cs)"
proof -
  have d: "DB rankingSystem = Some rankingDatabase"
    by (simp add: rankingSystem_def)
  have e: "CharacterService_GetAllCharacters rankingSystem
      = Inr (map (\<lambda>row. (scanListing row)\<lparr>CombatPower := CalculateCombatPower (scanListing row)\<rparr>)
          [(newCharacter 3 ''carol'')\<lparr>Level := 3, Experience := 700, BootsID := Some 1,
                                    CombatPower := 0\<rparr>,
           (newCharacter 2 ''bob'')\<lparr>Level := 3, CombatPower := 0\<rparr>,
           (newCharacter 1 ''alice'')\<lparr>Experience := 50, CombatPower := 0\<rparr>])"
    by (simp add: rankingSystem_def rankingDatabase_def CharacterService_GetAllCharacters_def
        CharacterService_GetAllCharacters_db_def Let_def newCharacter_def less_eq_prod_def)
  show ?thesis
    using listAll_leaderboard [OF d] d
    by (auto simp: e listed_fields basePower_def newCharacter_def scanListing_def)
qed

text \<open>
  Without a database the service returns an error instead of a listing, and
  \<^verbatim>\<open>GetAllCharacters\<close> of the in-memory storage, which the service does not call, lists
  the characters in the order of the map iteration: here alice (level 1) before bob
  (level 205).
\<close>

theorem listAll_leaderboard_counterexample:
  "CharacterService_GetAllCharacters \<lparr>DB = None, Memory = veteranStorage\<rparr>
     = Inl (Error ''database connection not available'')
   \<and> map Level (projr (GetAllCharacters [1, 2] veteranStorage)) = [1, 205]
   \<and> \<not> sorted_wrt leaderboardOrder (projr (GetAllCharacters [1, 2] veteranStorage))"
  by (simp add: CharacterService_GetAllCharacters_def GetAllCharacters_def veteranStorage_def
      List.map_filter_def leaderboardOrder_def newCharacter_def)

end
